theory Spec2Isabelle
  imports Complex_Main
begin

section \<open>Data model (types.ts)\<close>

text \<open>
  JavaScript numbers are modelled as real numbers and \<open>Math.floor\<close> is the floor function.
  The quotient and the products of the power penalty are rounded to the nearest double as
  the code's are (\<open>binary64\<close> below); sums, comparisons and the other products are exact.
  The building kinds are those of \<open>types.ts\<close> together with \<open>GreenRoad\<close>, which
  \<open>App.tsx\<close> uses. The kind \<open>None\<close> is written \<open>None_bt\<close>.
\<close>

datatype BuildingType =
    None_bt | Road | Residential | Commercial | Industrial | Agriculture
  | Park | SolarPanel | FusionReactor | ResearchLab | GreenRoad

record BuildingConfig =
  cost :: real
  name :: string
  popGen :: real
  incomeGen :: real
  powerGen :: real
  scienceGen :: real
  foodGen :: real
  oxygenGen :: real
  co2Gen :: real
  width :: nat
  height :: nat

text \<open>
  The catalog \<open>BUILDINGS\<close> of the extended program (with footprints and yields) and the
  per-head rates \<open>POP_*\<close> are constants of a module that is not part of the sources at
  hand; every function below takes them as parameters.
\<close>

type_synonym Catalog = "BuildingType \<Rightarrow> BuildingConfig"

record PopRates =
  POP_FOOD_CONSUMPTION :: real
  POP_O2_CONSUMPTION :: real
  POP_CO2_PRODUCTION :: real

text \<open>Optional fields of a tile are \<open>option\<close> values: \<open>None\<close> is \<open>undefined\<close>.\<close>

record TileData =
  tile_x :: int
  tile_y :: int
  buildingType :: BuildingType
  ownerX :: "int option"
  ownerY :: "int option"
  variant :: "int option"
  tile_height :: "int option"

type_synonym Grid = "TileData list list"

record CityStats_basic =
  money :: real
  population :: real
  day :: real
  science :: real
  powerSupply :: real
  powerDemand :: real

record CityStats = CityStats_basic +
  oxygen :: real
  co2 :: real
  food :: real

datatype TargetType = T_population | T_money | T_building_count | T_science

record AIGoal =
  description :: string
  targetType :: TargetType
  targetValue :: real
  goalBuildingType :: "BuildingType option"
  reward :: real
  completed :: bool

datatype Sentiment = positive | negative | neutral

record NewsItem =
  news_id :: string
  news_text :: string
  news_type :: Sentiment

record TechNode =
  tech_id :: string
  tech_name :: string
  tech_cost :: real
  unlocks :: "BuildingType list"
  prerequisites :: "string list"

section \<open>Tick engine: aggregation pass\<close>

text \<open>
  The root identifier of a tile is the string \<open>ownerX,ownerY\<close> when \<open>ownerX\<close> is defined and
  \<open>x,y\<close> otherwise; two such strings are equal exactly when the pairs are.
\<close>

definition rootId :: "TileData \<Rightarrow> int \<times> int option" where
  "rootId tile = (case ownerX tile of
                    Some ox \<Rightarrow> (ox, ownerY tile)
                  | None \<Rightarrow> (tile_x tile, Some (tile_y tile)))"

record Totals_basic =
  dailyIncome :: real
  dailyPopGrowth :: real
  dailyScience :: real
  powerGen_total :: real
  powerDrain :: real
  buildingCounts :: "BuildingType \<Rightarrow> nat"
  processedRoots :: "(int \<times> int option) list"

record Totals = Totals_basic +
  bioFoodGen :: real
  bioO2Gen :: real
  bioCO2Gen :: real

definition totals0_basic :: Totals_basic where
  "totals0_basic = \<lparr> dailyIncome = 0, dailyPopGrowth = 0, dailyScience = 0,
      powerGen_total = 0, powerDrain = 0, buildingCounts = (\<lambda>k. 0), processedRoots = [] \<rparr>"

definition totals0 :: Totals where
  "totals0 = \<lparr> dailyIncome = 0, dailyPopGrowth = 0, dailyScience = 0,
      powerGen_total = 0, powerDrain = 0, buildingCounts = (\<lambda>k. 0), processedRoots = [],
      bioFoodGen = 0, bioO2Gen = 0, bioCO2Gen = 0 \<rparr>"

text \<open>One iteration of \<open>grid.flat().forEach\<close>, basic program.\<close>

definition aggStep_basic :: "Catalog \<Rightarrow> Totals_basic \<Rightarrow> TileData \<Rightarrow> Totals_basic" where
  "aggStep_basic B a tile =
     (if buildingType tile \<noteq> None_bt then
        (if rootId tile \<notin> set (processedRoots a) then
           (let config = B (buildingType tile) in
            \<lparr> dailyIncome = dailyIncome a + incomeGen config,
              dailyPopGrowth = dailyPopGrowth a + popGen config,
              dailyScience = dailyScience a + scienceGen config,
              powerGen_total = (if powerGen config > 0 then powerGen_total a + powerGen config
                                else powerGen_total a),
              powerDrain = (if powerGen config > 0 then powerDrain a
                            else powerDrain a + \<bar>powerGen config\<bar>),
              buildingCounts = (buildingCounts a)
                 (buildingType tile := buildingCounts a (buildingType tile) + 1),
              processedRoots = processedRoots a @ [rootId tile] \<rparr>)
         else a)
      else a)"

definition aggregate_basic :: "Catalog \<Rightarrow> Grid \<Rightarrow> Totals_basic" where
  "aggregate_basic B g = foldl (aggStep_basic B) totals0_basic (concat g)"

text \<open>One iteration of \<open>grid.flat().forEach\<close>, extended program.\<close>

definition aggStep :: "Catalog \<Rightarrow> Totals \<Rightarrow> TileData \<Rightarrow> Totals" where
  "aggStep B a tile =
     (if buildingType tile \<noteq> None_bt then
        (if rootId tile \<notin> set (processedRoots a) then
           (let config = B (buildingType tile) in
            \<lparr> dailyIncome = dailyIncome a + incomeGen config,
              dailyPopGrowth = dailyPopGrowth a + popGen config,
              dailyScience = dailyScience a + scienceGen config,
              powerGen_total = (if powerGen config > 0 then powerGen_total a + powerGen config
                                else powerGen_total a),
              powerDrain = (if powerGen config > 0 then powerDrain a
                            else powerDrain a + \<bar>powerGen config\<bar>),
              buildingCounts = (buildingCounts a)
                 (buildingType tile := buildingCounts a (buildingType tile) + 1),
              processedRoots = processedRoots a @ [rootId tile],
              bioFoodGen = bioFoodGen a + foodGen config,
              bioO2Gen = bioO2Gen a + oxygenGen config,
              bioCO2Gen = bioCO2Gen a + co2Gen config \<rparr>)
         else a)
      else a)"

definition aggregate :: "Catalog \<Rightarrow> Grid \<Rightarrow> Totals" where
  "aggregate B g = foldl (aggStep B) totals0 (concat g)"

section \<open>Tick engine: power penalty\<close>

text \<open>
  The result of a division or multiplication of doubles is the exact result rounded to
  the nearest double, ties to the even significand. \<open>expo x\<close> is the binary exponent of a
  positive \<open>x\<close> (\<open>2 ^ expo x \<le> x < 2 ^ (expo x + 1)\<close>); a double has a significand of 53 bits,
  and below \<open>2 ^ -1022\<close> the spacing of the subnormal numbers. Magnitudes that reach
  \<open>2 ^ 1024\<close>, where JavaScript gives \<open>Infinity\<close>, are outside the model.
\<close>

definition roundHalfEven :: "real \<Rightarrow> int" where
  "roundHalfEven q =
     (let f = \<lfloor>q\<rfloor>; d = q - of_int f
      in if d < 1 / 2 then f
         else if d > 1 / 2 then f + 1
         else if even f then f else f + 1)"

function expoUp :: "real \<Rightarrow> nat" where
  "expoUp x = (if 2 \<le> x then Suc (expoUp (x / 2)) else 0)"
  by pat_completeness auto
termination
proof (relation "measure (\<lambda>x. nat \<lfloor>x\<rfloor>)")
  show "wf (measure (\<lambda>x::real. nat \<lfloor>x\<rfloor>))" by simp
next
  fix x :: real
  assume a: "2 \<le> x"
  have "x / 2 \<le> x - 1" using a by simp
  then have "\<lfloor>x / 2\<rfloor> \<le> \<lfloor>x - 1\<rfloor>" by (rule floor_mono)
  then have "\<lfloor>x / 2\<rfloor> < \<lfloor>x\<rfloor>" by simp
  moreover have "0 < \<lfloor>x\<rfloor>" using a by simp
  ultimately have "nat \<lfloor>x / 2\<rfloor> < nat \<lfloor>x\<rfloor>" by linarith
  then show "(x / 2, x) \<in> measure (\<lambda>x. nat \<lfloor>x\<rfloor>)" by (simp only: in_measure)
qed

function expoDown :: "real \<Rightarrow> nat" where
  "expoDown x = (if 0 < x \<and> x < 1 then Suc (expoDown (x * 2)) else 0)"
  by pat_completeness auto
termination
proof (relation "measure (\<lambda>x. nat \<lceil>1 / x\<rceil>)")
  show "wf (measure (\<lambda>x::real. nat \<lceil>1 / x\<rceil>))" by simp
next
  fix x :: real
  assume a: "0 < x \<and> x < 1"
  have y: "1 < 1 / x" using a by simp
  then have c: "2 \<le> \<lceil>1 / x\<rceil>" by (simp add: le_ceiling_iff)
  have "1 / x \<le> of_int \<lceil>1 / x\<rceil>" by (rule le_of_int_ceiling)
  then have "1 / x / 2 \<le> of_int \<lceil>1 / x\<rceil> / 2" by (rule divide_right_mono) simp
  also have "\<dots> \<le> of_int (\<lceil>1 / x\<rceil> - 1)" using c by simp
  finally have "1 / x / 2 \<le> of_int (\<lceil>1 / x\<rceil> - 1)" .
  then have "\<lceil>1 / x / 2\<rceil> \<le> \<lceil>1 / x\<rceil> - 1" by (rule ceiling_le)
  moreover have "1 / (x * 2) = 1 / x / 2" by simp
  ultimately have "\<lceil>1 / (x * 2)\<rceil> \<le> \<lceil>1 / x\<rceil> - 1" by (simp only:)
  then have "nat \<lceil>1 / (x * 2)\<rceil> < nat \<lceil>1 / x\<rceil>" using c by linarith
  then show "(x * 2, x) \<in> measure (\<lambda>x. nat \<lceil>1 / x\<rceil>)"
    by (simp only: in_measure)
qed

declare expoUp.simps [simp del] expoDown.simps [simp del]

definition expo :: "real \<Rightarrow> int" where
  "expo x = (if 1 \<le> x then int (expoUp x) else - int (expoDown x))"

definition pow2 :: "int \<Rightarrow> real" where
  "pow2 k = (if 0 \<le> k then 2 ^ nat k else 1 / 2 ^ nat (- k))"

definition binary64 :: "real \<Rightarrow> real" where
  "binary64 x =
     (if x = 0 then 0
      else (let e = max (expo \<bar>x\<bar>) (- 1022);
                u = pow2 (e - 52);
                n = roundHalfEven (\<bar>x\<bar> / u)
            in sgn x * of_int n * u))"

definition powerRatio :: "real \<Rightarrow> real \<Rightarrow> real" where
  "powerRatio pGen pDrain = (if pDrain > 0 then min 1 (binary64 (pGen / pDrain)) else 1)"

definition isLowPower :: "real \<Rightarrow> real \<Rightarrow> bool" where
  "isLowPower pGen pDrain = (powerRatio pGen pDrain < 1)"

definition powerPenalty_basic :: "Totals_basic \<Rightarrow> Totals_basic" where
  "powerPenalty_basic a =
     (let r = powerRatio (powerGen_total a) (powerDrain a) in
      if isLowPower (powerGen_total a) (powerDrain a) then
        a\<lparr> dailyIncome := of_int \<lfloor>binary64 (dailyIncome a * r)\<rfloor>,
           dailyPopGrowth := 0,
           dailyScience := of_int \<lfloor>binary64 (dailyScience a * r)\<rfloor> \<rparr>
      else a)"

definition powerPenalty :: "Totals \<Rightarrow> Totals" where
  "powerPenalty a =
     (let r = powerRatio (powerGen_total a) (powerDrain a) in
      if isLowPower (powerGen_total a) (powerDrain a) then
        a\<lparr> dailyIncome := of_int \<lfloor>binary64 (dailyIncome a * r)\<rfloor>,
           dailyPopGrowth := 0,
           dailyScience := of_int \<lfloor>binary64 (dailyScience a * r)\<rfloor>,
           bioFoodGen := of_int \<lfloor>binary64 (bioFoodGen a * r)\<rfloor>,
           bioO2Gen := binary64 (bioO2Gen a * r) \<rparr>
      else a)"

section \<open>Tick engine: the stats updater\<close>

text \<open>The survival check of the extended program (\<open>deathToll\<close>).\<close>

definition deathToll :: "real \<Rightarrow> real \<Rightarrow> real \<Rightarrow> real \<Rightarrow> real" where
  "deathToll starvation newO2 newCO2 pop =
     (let d1 = (if starvation > 0 then 0 + of_int \<lfloor>starvation * 0.1\<rfloor> else 0);
          d2 = (if newO2 < 10 then d1 + of_int \<lfloor>pop * 0.05\<rfloor>
                else if newO2 < 5 then d1 + of_int \<lfloor>pop * 0.2\<rfloor>
                else d1);
          d3 = (if newCO2 > 2000 then d2 + of_int \<lfloor>pop * 0.02\<rfloor> else d2)
      in d3)"

definition starvationOf :: "PopRates \<Rightarrow> Totals \<Rightarrow> CityStats \<Rightarrow> real" where
  "starvationOf R a prev =
     (let newFood = food prev + bioFoodGen a - population prev * POP_FOOD_CONSUMPTION R
      in if newFood < 0 then \<bar>newFood\<bar> else 0)"

definition newFoodOf :: "PopRates \<Rightarrow> Totals \<Rightarrow> CityStats \<Rightarrow> real" where
  "newFoodOf R a prev =
     (let newFood = food prev + bioFoodGen a - population prev * POP_FOOD_CONSUMPTION R
      in if newFood < 0 then 0 else newFood)"

definition newO2Of :: "PopRates \<Rightarrow> Totals \<Rightarrow> CityStats \<Rightarrow> real" where
  "newO2Of R a prev =
     (let pop = population prev;
          o1 = oxygen prev + bioO2Gen a - pop * POP_O2_CONSUMPTION R;
          o2 = (if pop = 0 \<and> length (processedRoots a) = 0 then 100 else o1);
          o3 = (if o2 > 100 then 100 else o2)
      in if o3 < 0 then 0 else o3)"

definition newCO2Of :: "PopRates \<Rightarrow> Totals \<Rightarrow> CityStats \<Rightarrow> real" where
  "newCO2Of R a prev =
     (let pop = population prev;
          c1 = co2 prev + pop * POP_CO2_PRODUCTION R + bioCO2Gen a;
          c2 = (if pop = 0 \<and> length (processedRoots a) = 0 then 400 else c1)
      in if c2 < 300 then 300 else c2)"

definition maxPopOf :: "(BuildingType \<Rightarrow> nat) \<Rightarrow> real" where
  "maxPopOf counts = real (counts Residential) * 50"

definition newPopOf :: "PopRates \<Rightarrow> Totals \<Rightarrow> CityStats \<Rightarrow> real" where
  "newPopOf R a prev =
     (let pop = population prev;
          maxPop = maxPopOf (buildingCounts a);
          dt = deathToll (starvationOf R a prev) (newO2Of R a prev) (newCO2Of R a prev) pop;
          p1 = pop + dailyPopGrowth a - dt;
          p2 = (if p1 > maxPop then maxPop else p1)
      in if p2 < 0 then 0 else p2)"

text \<open>
  The function passed to \<open>setStats\<close> by the extended tick; \<open>a\<close> holds the totals after the
  power penalty.
\<close>

definition tickStats :: "PopRates \<Rightarrow> Totals \<Rightarrow> CityStats \<Rightarrow> CityStats" where
  "tickStats R a prev =
     \<lparr> money = money prev + dailyIncome a,
       population = newPopOf R a prev,
       day = day prev + 1,
       science = science prev + dailyScience a,
       powerSupply = powerGen_total a,
       powerDemand = powerDrain a,
       oxygen = newO2Of R a prev,
       co2 = newCO2Of R a prev,
       food = newFoodOf R a prev \<rparr>"

text \<open>The function passed to \<open>setStats\<close> by the basic tick.\<close>

definition newPopOf_basic :: "Totals_basic \<Rightarrow> CityStats_basic \<Rightarrow> real" where
  "newPopOf_basic a prev =
     (let resCount = buildingCounts a Residential;
          maxPop = maxPopOf (buildingCounts a);
          p1 = population prev + dailyPopGrowth a;
          p2 = (if p1 > maxPop then maxPop else p1)
      in if resCount = 0 \<and> population prev > 0 then max 0 (population prev - 5) else p2)"

definition tickStats_basic :: "Totals_basic \<Rightarrow> CityStats_basic \<Rightarrow> CityStats_basic" where
  "tickStats_basic a prev =
     \<lparr> money = money prev + dailyIncome a,
       population = newPopOf_basic a prev,
       day = day prev + 1,
       science = science prev + dailyScience a,
       powerSupply = powerGen_total a,
       powerDemand = powerDrain a \<rparr>"

section \<open>Tick engine: goal evaluation\<close>

definition isMet :: "AIGoal \<Rightarrow> (BuildingType \<Rightarrow> nat) \<Rightarrow> 's CityStats_basic_scheme \<Rightarrow> bool" where
  "isMet goal counts newStats =
     (let m1 = (targetType goal = T_money \<and> money newStats \<ge> targetValue goal);
          m2 = (if targetType goal = T_population \<and> population newStats \<ge> targetValue goal
                then True else m1);
          m3 = (if targetType goal = T_science \<and> science newStats \<ge> targetValue goal
                then True else m2)
      in case goalBuildingType goal of
           Some k \<Rightarrow> (if targetType goal = T_building_count \<and> real (counts k) \<ge> targetValue goal
                      then True else m3)
         | None \<Rightarrow> m3)"

definition checkGoal ::
  "bool \<Rightarrow> AIGoal option \<Rightarrow> (BuildingType \<Rightarrow> nat) \<Rightarrow> 's CityStats_basic_scheme \<Rightarrow> AIGoal option" where
  "checkGoal ai cur counts newStats =
     (case cur of
        None \<Rightarrow> cur
      | Some goal \<Rightarrow>
          (if ai \<and> \<not> completed goal then
             (if isMet goal counts newStats then Some (goal\<lparr>completed := True\<rparr>) else cur)
           else cur))"

section \<open>Game state\<close>

datatype ViewMode = standard | orbital | moon

text \<open>
  The React state of \<open>App\<close>. The references (\<open>gridRef\<close>, \<open>statsRef\<close>, ...) mirror the state
  after each render and are not modelled apart from it. The basic program runs on
  \<open>CityStats_basic Game\<close>, the extended one on \<open>CityStats GameX\<close>.
\<close>

record 's Game =
  gameStarted :: bool
  mapSize :: nat
  aiEnabled :: bool
  autoGrowth :: bool
  grid :: Grid
  stats :: 's
  selectedTool :: BuildingType
  unlockedTechs :: "string list"
  currentGoal :: "AIGoal option"
  newsFeed :: "NewsItem list"

record 's GameX = "'s Game" +
  viewMode :: ViewMode

text \<open>
  A handler either returns or throws; in both cases the state is the one left by the
  state setters it has called so far.
\<close>

datatype fault = TypeError | OffGridWrite

datatype 'g outcome = Returned 'g | Thrown fault 'g

definition addNewsItem :: "NewsItem \<Rightarrow> ('s, 'm) Game_scheme \<Rightarrow> ('s, 'm) Game_scheme" where
  "addNewsItem item g =
     g\<lparr> newsFeed := drop (length (newsFeed g) - 12) (newsFeed g) @ [item] \<rparr>"

section \<open>Grid store\<close>

text \<open>
  \<open>currentGrid[cy][cx]\<close>: a missing row makes the indexing throw; a missing column gives
  \<open>undefined\<close>, and the next property access throws.
\<close>

definition readCell :: "Grid \<Rightarrow> int \<Rightarrow> int \<Rightarrow> fault + TileData option" where
  "readCell g cx cy =
     (if 0 \<le> cy \<and> cy < int (length g) then
        (let row = g ! nat cy in
         if 0 \<le> cx \<and> cx < int (length row) then Inr (Some (row ! nat cx)) else Inr None)
      else Inl TypeError)"

definition readTile :: "Grid \<Rightarrow> int \<Rightarrow> int \<Rightarrow> fault + TileData" where
  "readTile g cx cy =
     (case readCell g cx cy of
        Inl e \<Rightarrow> Inl e
      | Inr None \<Rightarrow> Inl TypeError
      | Inr (Some t) \<Rightarrow> Inr t)"

text \<open>
  \<open>newGrid[cy][cx] = f(newGrid[cy][cx])\<close>: a missing row throws. A column outside the row
  would make JavaScript grow the row (or set a property); the model reports that as the
  fault \<open>OffGridWrite\<close>.
\<close>

definition updTile :: "Grid \<Rightarrow> int \<Rightarrow> int \<Rightarrow> (TileData \<Rightarrow> TileData) \<Rightarrow> fault + Grid" where
  "updTile g cx cy f =
     (if 0 \<le> cy \<and> cy < int (length g) then
        (let row = g ! nat cy in
         if 0 \<le> cx \<and> cx < int (length row)
         then Inr (g[nat cy := row[nat cx := f (row ! nat cx)]])
         else Inl OffGridWrite)
      else Inl TypeError)"

text \<open>
  The coordinates visited by \<open>for i < w\<close>, \<open>for j < h\<close> from the origin \<open>(x, y)\<close>, in the
  order of the loops.
\<close>

definition footprint :: "int \<Rightarrow> int \<Rightarrow> nat \<Rightarrow> nat \<Rightarrow> (int \<times> int) list" where
  "footprint x y w h = concat (map (\<lambda>i. map (\<lambda>j. (x + int i, y + int j)) [0..<h]) [0..<w])"

text \<open>The occupancy loops: \<open>bad\<close> is the test that sets \<open>occupied = true\<close> for a tile.\<close>

fun occupiedLoop :: "(TileData \<Rightarrow> bool) \<Rightarrow> Grid \<Rightarrow> (int \<times> int) list \<Rightarrow> bool \<Rightarrow> fault + bool" where
  "occupiedLoop bad g [] occupied = Inr occupied"
| "occupiedLoop bad g ((cx, cy) # ps) occupied =
     (case readTile g cx cy of
        Inl e \<Rightarrow> Inl e
      | Inr t \<Rightarrow> occupiedLoop bad g ps (if bad t then True else occupied))"

text \<open>
  The occupancy loop of the basic \<open>handleTileClick\<close>, whose \<open>break\<close> leaves the inner loop
  at the first occupied tile of a column.
\<close>

fun occupiedInner_basic :: "Grid \<Rightarrow> int \<Rightarrow> int \<Rightarrow> nat list \<Rightarrow> bool \<Rightarrow> fault + bool" where
  "occupiedInner_basic g x y [] occupied = Inr occupied"
| "occupiedInner_basic g x y (j # js) occupied =
     (case readTile g x (y + int j) of
        Inl e \<Rightarrow> Inl e
      | Inr t \<Rightarrow> (if buildingType t \<noteq> None_bt then Inr True
                  else occupiedInner_basic g x y js occupied))"

fun occupiedOuter_basic :: "Grid \<Rightarrow> int \<Rightarrow> int \<Rightarrow> nat \<Rightarrow> nat list \<Rightarrow> bool \<Rightarrow> fault + bool" where
  "occupiedOuter_basic g x y h [] occupied = Inr occupied"
| "occupiedOuter_basic g x y h (i # is) occupied =
     (case occupiedInner_basic g (x + int i) y [0..<h] occupied of
        Inl e \<Rightarrow> Inl e
      | Inr occ \<Rightarrow> occupiedOuter_basic g x y h is occ)"

text \<open>The write loops: \<open>f cx cy\<close> maps the tile found at \<open>(cx, cy)\<close> to the tile written there.\<close>

fun writeLoop :: "(int \<Rightarrow> int \<Rightarrow> TileData \<Rightarrow> TileData) \<Rightarrow> (int \<times> int) list \<Rightarrow> Grid \<Rightarrow> fault + Grid" where
  "writeLoop f [] g = Inr g"
| "writeLoop f ((cx, cy) # ps) g =
     (case updTile g cx cy (f cx cy) of
        Inl e \<Rightarrow> Inl e
      | Inr g' \<Rightarrow> writeLoop f ps g')"

text \<open>The demolition loop writes only where \<open>rootY+j < mapSize && rootX+i < mapSize\<close>.\<close>

fun clearLoop :: "nat \<Rightarrow> (int \<Rightarrow> int \<Rightarrow> TileData \<Rightarrow> TileData) \<Rightarrow> (int \<times> int) list \<Rightarrow> Grid \<Rightarrow> fault + Grid" where
  "clearLoop n f [] g = Inr g"
| "clearLoop n f ((cx, cy) # ps) g =
     (if cy < int n \<and> cx < int n then
        (case updTile g cx cy (f cx cy) of
           Inl e \<Rightarrow> Inl e
         | Inr g' \<Rightarrow> clearLoop n f ps g')
      else clearLoop n f ps g)"

definition placedTile :: "BuildingType \<Rightarrow> int \<Rightarrow> int \<Rightarrow> int \<Rightarrow> TileData \<Rightarrow> TileData" where
  "placedTile k x y v t = t\<lparr> buildingType := k, ownerX := Some x, ownerY := Some y, variant := Some v \<rparr>"

definition placedTile_basic :: "BuildingType \<Rightarrow> int \<Rightarrow> int \<Rightarrow> TileData \<Rightarrow> TileData" where
  "placedTile_basic k x y t = t\<lparr> buildingType := k, ownerX := Some x, ownerY := Some y \<rparr>"

definition clearedTile :: "TileData \<Rightarrow> TileData" where
  "clearedTile t = t\<lparr> buildingType := None_bt, ownerX := None, ownerY := None, variant := None \<rparr>"

definition clearedTile_basic :: "int \<Rightarrow> int \<Rightarrow> TileData" where
  "clearedTile_basic cx cy =
     \<lparr> tile_x = cx, tile_y = cy, buildingType = None_bt, ownerX = None, ownerY = None,
       variant = None, tile_height = None \<rparr>"

section \<open>Tech unlock resolver\<close>

definition findTech :: "TechNode list \<Rightarrow> string \<Rightarrow> TechNode option" where
  "findTech TT techId = List.find (\<lambda>t. tech_id t = techId) TT"

definition addAll :: "BuildingType list \<Rightarrow> BuildingType list \<Rightarrow> BuildingType list" where
  "addAll bs new = foldl (\<lambda>acc b. if b \<in> set acc then acc else acc @ [b]) bs new"

definition unlockedBuildings :: "TechNode list \<Rightarrow> string list \<Rightarrow> BuildingType list" where
  "unlockedBuildings TT techs =
     foldl (\<lambda>buildings techId.
              case findTech TT techId of
                None \<Rightarrow> buildings
              | Some tech \<Rightarrow> addAll buildings (unlocks tech))
           [None_bt] techs"

definition handleUnlockTech ::
  "TechNode list \<Rightarrow> string \<Rightarrow> string \<Rightarrow> ('a CityStats_basic_scheme, 'm) Game_scheme
     \<Rightarrow> ('a CityStats_basic_scheme, 'm) Game_scheme" where
  "handleUnlockTech TT now techId g =
     (case findTech TT techId of
        None \<Rightarrow> g
      | Some tech \<Rightarrow>
          (if science (stats g) \<ge> tech_cost tech then
             addNewsItem \<lparr> news_id = now, news_text = ''Research Completed: '' @ tech_name tech,
                           news_type = positive \<rparr>
               (g\<lparr> stats := (stats g)\<lparr> science := science (stats g) - tech_cost tech \<rparr>,
                   unlockedTechs := unlockedTechs g @ [techId] \<rparr>)
           else
             addNewsItem \<lparr> news_id = now, news_text = ''Insufficient Science for '' @ tech_name tech,
                           news_type = negative \<rparr> g))"

text \<open>
  The card of a node in the research panel (\<open>TechModal\<close>): the three flags it computes
  from the unlocked list, and its Research button, rendered when the node is neither
  unlocked nor locked. The button calls \<open>onUnlock\<close>, which is \<open>handleUnlockTech\<close>, with the
  node's id, and is disabled when the science is below the cost.
\<close>

record ResearchButton =
  button_onUnlock :: string
  button_disabled :: bool

definition isUnlocked :: "string list \<Rightarrow> TechNode \<Rightarrow> bool" where
  "isUnlocked techs tech = (tech_id tech \<in> set techs)"

definition canUnlock :: "string list \<Rightarrow> TechNode \<Rightarrow> bool" where
  "canUnlock techs tech =
     (\<not> isUnlocked techs tech \<and> list_all (\<lambda>pre. pre \<in> set techs) (prerequisites tech))"

definition isLocked :: "string list \<Rightarrow> TechNode \<Rightarrow> bool" where
  "isLocked techs tech = (\<not> isUnlocked techs tech \<and> \<not> canUnlock techs tech)"

definition researchButton :: "string list \<Rightarrow> real \<Rightarrow> TechNode \<Rightarrow> ResearchButton option" where
  "researchButton techs sci tech =
     (if \<not> isUnlocked techs tech \<and> \<not> isLocked techs tech
      then Some \<lparr> button_onUnlock = tech_id tech, button_disabled = (sci < tech_cost tech) \<rparr>
      else None)"

definition TechModal :: "TechNode list \<Rightarrow> string list \<Rightarrow> real \<Rightarrow> ResearchButton option list" where
  "TechModal TT techs sci = map (researchButton techs sci) TT"

section \<open>Goal reward\<close>

text \<open>
  \<open>handleClaimReward\<close>; the request for the next goal (\<open>fetchNewGoal\<close>) is asynchronous and
  its answer is a later event. \<open>str\<close> is the conversion of a number to text in the notice.
\<close>

definition handleClaimReward ::
  "(real \<Rightarrow> string) \<Rightarrow> string \<Rightarrow> ('a CityStats_basic_scheme, 'm) Game_scheme
     \<Rightarrow> ('a CityStats_basic_scheme, 'm) Game_scheme" where
  "handleClaimReward str now g =
     (case currentGoal g of
        None \<Rightarrow> g
      | Some goal \<Rightarrow>
          (if completed goal then
             (addNewsItem \<lparr> news_id = now,
                  news_text = ''Contract fulfilled. '' @ str (reward goal) @ '' deposited.'',
                  news_type = positive \<rparr>
                (g\<lparr> stats := (stats g)\<lparr> money := money (stats g) + reward goal \<rparr> \<rparr>))
               \<lparr> currentGoal := None \<rparr>
           else g))"

section \<open>Auto-builder\<close>

text \<open>
  Every call of \<open>Math.random()\<close> is an input of the model, named after its use; the draws
  of the placement loop are indexed by the attempt.
\<close>

record Draws_basic =
  b_pick :: real
  b_x :: "nat \<Rightarrow> real"
  b_y :: "nat \<Rightarrow> real"

record Draws =
  d_green :: real
  d_pick :: real
  d_hub :: real
  d_angle :: "nat \<Rightarrow> real"
  d_dist :: "nat \<Rightarrow> real"
  d_variant :: real

text \<open>\<open>xs[Math.floor(r * xs.length)]\<close>, \<open>undefined\<close> outside the array.\<close>

definition pickAt :: "'a list \<Rightarrow> real \<Rightarrow> 'a option" where
  "pickAt xs r =
     (let i = \<lfloor>r * real (length xs)\<rfloor> in
      if 0 \<le> i \<and> i < int (length xs) then Some (xs ! nat i) else None)"

text \<open>The placement loop of the basic auto-builder, over the attempts still to run.\<close>

fun attempts_basic ::
  "Catalog \<Rightarrow> Draws_basic \<Rightarrow> BuildingType \<Rightarrow> CityStats_basic Game \<Rightarrow> nat list
     \<Rightarrow> CityStats_basic Game outcome" where
  "attempts_basic B d typeToBuild g [] = Returned g"
| "attempts_basic B d typeToBuild g (attempt # rest) =
     (let config = B typeToBuild;
          x = \<lfloor>b_x d attempt * real (mapSize g)\<rfloor>;
          y = \<lfloor>b_y d attempt * real (mapSize g)\<rfloor>
      in if x + int (width config) > int (mapSize g) \<or> y + int (height config) > int (mapSize g)
         then attempts_basic B d typeToBuild g rest
         else
           (case occupiedLoop (\<lambda>t. buildingType t \<noteq> None_bt) (grid g)
                   (footprint x y (width config) (height config)) False of
              Inl e \<Rightarrow> Thrown e g
            | Inr occupied \<Rightarrow>
                (if occupied then attempts_basic B d typeToBuild g rest
                 else
                   (case writeLoop (\<lambda>cx cy. placedTile_basic typeToBuild x y)
                           (footprint x y (width config) (height config)) (grid g) of
                      Inl e \<Rightarrow> Thrown e g
                    | Inr newGrid \<Rightarrow>
                        Returned (g\<lparr> grid := newGrid,
                                     stats := (stats g)\<lparr> money := money (stats g) - cost config \<rparr> \<rparr>)))))"

definition attemptAutoBuild_basic ::
  "Catalog \<Rightarrow> TechNode list \<Rightarrow> Draws_basic \<Rightarrow> CityStats_basic Game \<Rightarrow> CityStats_basic Game outcome" where
  "attemptAutoBuild_basic B TT d g =
     (let currentStats = stats g;
          available = unlockedBuildings TT (unlockedTechs g)
      in if money currentStats < 500 then Returned g
         else
           (let candidates = filter (\<lambda>b. b \<noteq> None_bt \<and> b \<noteq> Road) available
            in if length candidates = 0 then Returned g
               else
                 (case pickAt candidates (b_pick d) of
                    None \<Rightarrow> Thrown TypeError g
                  | Some typeToBuild \<Rightarrow>
                      (if money currentStats < cost (B typeToBuild) then Returned g
                       else attempts_basic B d typeToBuild g [0..<20]))))"

text \<open>The extended auto-builder: needs, target kind, hub, placement loop.\<close>

definition residentialCount :: "Grid \<Rightarrow> nat" where
  "residentialCount g =
     length (filter (\<lambda>t. (buildingType t = Residential \<and> ownerX t = None)
                       \<or> (buildingType t = Residential \<and> ownerX t = Some (tile_x t)
                            \<and> ownerY t = Some (tile_y t)))
                    (concat g))"

definition ecoOptions :: "BuildingType list \<Rightarrow> real \<Rightarrow> real \<Rightarrow> BuildingType list" where
  "ecoOptions available m r =
       (if Agriculture \<in> set available then [Agriculture] else [])
     @ (if Commercial \<in> set available then [Commercial] else [])
     @ (if Industrial \<in> set available then [Industrial] else [])
     @ (if Park \<in> set available then [Park] else [])
     @ (if ResearchLab \<in> set available \<and> m > 2000 then [ResearchLab] else [])
     @ (if GreenRoad \<in> set available \<and> r > 0.7 then [GreenRoad] else [])"

definition chooseTarget :: "BuildingType list \<Rightarrow> Draws \<Rightarrow> Grid \<Rightarrow> CityStats \<Rightarrow> BuildingType option" where
  "chooseTarget available d g currentStats =
     (let pRatio = (if powerSupply currentStats > 0
                    then powerDemand currentStats / powerSupply currentStats else 1.1);
          foodStock = food currentStats;
          maxPop = real (residentialCount g) * 50;
          popRatio = (if maxPop > 0 then population currentStats / maxPop else 1.1)
      in if oxygen currentStats < 80 \<or> foodStock < population currentStats * 2 then
           (if Agriculture \<in> set available then Some Agriculture
            else if Park \<in> set available then Some Park
            else None)
         else if pRatio > 0.85 then
           (if FusionReactor \<in> set available \<and> money currentStats > 3500 then Some FusionReactor
            else if SolarPanel \<in> set available then Some SolarPanel
            else None)
         else if popRatio > 0.9 then
           (if Residential \<in> set available then Some Residential else None)
         else
           (let opts = ecoOptions available (money currentStats) (d_green d)
            in if length opts > 0 then pickAt opts (d_pick d) else None))"

fun attempts ::
  "Catalog \<Rightarrow> Draws \<Rightarrow> BuildingType \<Rightarrow> real \<Rightarrow> real \<Rightarrow> CityStats GameX \<Rightarrow> nat list
     \<Rightarrow> CityStats GameX outcome" where
  "attempts B d target startX startY g [] = Returned g"
| "attempts B d target startX startY g (attempt # rest) =
     (let config = B target;
          angle = d_angle d attempt * pi * 2;
          dist = 1 + d_dist d attempt * 4 + (real attempt * 0.2);
          x = \<lfloor>startX + cos angle * dist\<rfloor>;
          y = \<lfloor>startY + sin angle * dist\<rfloor>
      in if x < 0 \<or> y < 0 \<or> x \<ge> int (mapSize g) \<or> y \<ge> int (mapSize g)
         then attempts B d target startX startY g rest
         else if x + int (width config) > int (mapSize g) \<or> y + int (height config) > int (mapSize g)
         then attempts B d target startX startY g rest
         else
           (case readTile (grid g) x y of
              Inl e \<Rightarrow> Thrown e g
            | Inr origin \<Rightarrow>
                (case occupiedLoop
                        (\<lambda>t. buildingType t \<noteq> None_bt \<or> tile_height t \<noteq> tile_height origin)
                        (grid g) (footprint x y (width config) (height config)) False of
                   Inl e \<Rightarrow> Thrown e g
                 | Inr occupied \<Rightarrow>
                     (if occupied then attempts B d target startX startY g rest
                      else
                        (case writeLoop (\<lambda>cx cy. placedTile target x y \<lfloor>d_variant d * 4\<rfloor>)
                                (footprint x y (width config) (height config)) (grid g) of
                           Inl e \<Rightarrow> Thrown e g
                         | Inr newGrid \<Rightarrow>
                             Returned (g\<lparr> grid := newGrid,
                                 stats := (stats g)\<lparr> money := money (stats g) - cost config \<rparr> \<rparr>))))))"

definition attemptAutoBuild ::
  "Catalog \<Rightarrow> TechNode list \<Rightarrow> Draws \<Rightarrow> CityStats GameX \<Rightarrow> CityStats GameX outcome" where
  "attemptAutoBuild B TT d g =
     (let currentStats = stats g;
          currentGrid = grid g;
          available = unlockedBuildings TT (unlockedTechs g)
      in if money currentStats < 300 then Returned g
         else
           (case chooseTarget available d currentGrid currentStats of
              None \<Rightarrow> Returned g
            | Some target \<Rightarrow>
                (if money currentStats < cost (B target) then Returned g
                 else
                   (let hubs = filter (\<lambda>t. buildingType t \<noteq> None_bt) (concat currentGrid)
                    in if length hubs > 0 then
                         (case pickAt hubs (d_hub d) of
                            None \<Rightarrow> Thrown TypeError g
                          | Some randomHub \<Rightarrow>
                              attempts B d target (real_of_int (tile_x randomHub))
                                (real_of_int (tile_y randomHub)) g [0..<20])
                       else attempts B d target (real (mapSize g) / 2)
                              (real (mapSize g) / 2) g [0..<20]))))"

section \<open>Player interaction: build and demolish\<close>

definition notice :: "string \<Rightarrow> string \<Rightarrow> NewsItem" where
  "notice now txt = \<lparr> news_id = now, news_text = txt, news_type = negative \<rparr>"

text \<open>\<open>handleTileClick\<close> of the basic program.\<close>

definition handleTileClick_basic ::
  "Catalog \<Rightarrow> TechNode list \<Rightarrow> string \<Rightarrow> int \<Rightarrow> int \<Rightarrow> CityStats_basic Game
     \<Rightarrow> CityStats_basic Game outcome" where
  "handleTileClick_basic B TT now x y g =
     (if \<not> gameStarted g then Returned g
      else if x < 0 \<or> x \<ge> int (mapSize g) \<or> y < 0 \<or> y \<ge> int (mapSize g) then Returned g
      else
        (case readCell (grid g) x y of
           Inl e \<Rightarrow> Thrown e g
         | Inr clickedTile \<Rightarrow>
            (let tool = selectedTool g; buildingConfig = B tool in
             if tool = None_bt then
               (case clickedTile of
                  None \<Rightarrow> Thrown TypeError g
                | Some ct \<Rightarrow>
                   (if buildingType ct \<noteq> None_bt then
                      (if money (stats g) \<ge> 50 then
                         (let rootX = (case ownerX ct of Some ox \<Rightarrow> ox | None \<Rightarrow> tile_x ct);
                              rootY = (case ownerY ct of Some oy \<Rightarrow> oy | None \<Rightarrow> tile_y ct)
                          in case readTile (grid g) rootX rootY of
                               Inl e \<Rightarrow> Thrown e g
                             | Inr rootTile \<Rightarrow>
                                (let targetConfig = B (buildingType rootTile) in
                                 case clearLoop (mapSize g) (\<lambda>cx cy t. clearedTile_basic cx cy)
                                        (footprint rootX rootY (width targetConfig) (height targetConfig))
                                        (grid g) of
                                   Inl e \<Rightarrow> Thrown e g
                                 | Inr newGrid \<Rightarrow>
                                     Returned (g\<lparr> grid := newGrid,
                                       stats := (stats g)\<lparr> money := money (stats g) - 50 \<rparr> \<rparr>)))
                       else Returned (addNewsItem
                              (notice now ''Insufficient credits for demolition crews.'') g))
                    else Returned g))
             else if tool \<notin> set (unlockedBuildings TT (unlockedTechs g)) then
               Returned (addNewsItem (notice now ''Technology not yet researched.'') g)
             else if x + int (width buildingConfig) > int (mapSize g)
                   \<or> y + int (height buildingConfig) > int (mapSize g) then
               Returned (addNewsItem (notice now ''Cannot place here: Outside colony bounds.'') g)
             else
               (case occupiedOuter_basic (grid g) x y (height buildingConfig)
                       [0..<width buildingConfig] False of
                  Inl e \<Rightarrow> Thrown e g
                | Inr occupied \<Rightarrow>
                   (if occupied then
                      Returned (addNewsItem
                        (notice now ''Sector occupied. Demolish existing structures first.'') g)
                    else if money (stats g) \<ge> cost buildingConfig then
                      (let g1 = g\<lparr> stats := (stats g)\<lparr> money := money (stats g) - cost buildingConfig \<rparr> \<rparr>
                       in case writeLoop (\<lambda>cx cy. placedTile_basic tool x y)
                                 (footprint x y (width buildingConfig) (height buildingConfig))
                                 (grid g) of
                            Inl e \<Rightarrow> Thrown e g1
                          | Inr newGrid \<Rightarrow> Returned (g1\<lparr> grid := newGrid \<rparr>))
                    else
                      Returned (addNewsItem
                        (notice now (''Insufficient credits for '' @ name buildingConfig @ ''.'')) g))))))"

text \<open>\<open>handleTileClick\<close> of the extended program; \<open>r\<close> is the draw for the visual variant.\<close>

definition handleTileClick ::
  "Catalog \<Rightarrow> TechNode list \<Rightarrow> real \<Rightarrow> string \<Rightarrow> int \<Rightarrow> int \<Rightarrow> CityStats GameX
     \<Rightarrow> CityStats GameX outcome" where
  "handleTileClick B TT r now x y g =
     (if \<not> gameStarted g \<or> viewMode g = moon then Returned g
      else if x < 0 \<or> x \<ge> int (mapSize g) \<or> y < 0 \<or> y \<ge> int (mapSize g) then Returned g
      else
        (case readCell (grid g) x y of
           Inl e \<Rightarrow> Thrown e g
         | Inr clickedTile \<Rightarrow>
            (let tool = selectedTool g; buildingConfig = B tool in
             if tool = None_bt then
               (case clickedTile of
                  None \<Rightarrow> Thrown TypeError g
                | Some ct \<Rightarrow>
                   (if buildingType ct \<noteq> None_bt then
                      (if money (stats g) \<ge> 50 then
                         (let rootX = (case ownerX ct of Some ox \<Rightarrow> ox | None \<Rightarrow> tile_x ct);
                              rootY = (case ownerY ct of Some oy \<Rightarrow> oy | None \<Rightarrow> tile_y ct)
                          in case readTile (grid g) rootX rootY of
                               Inl e \<Rightarrow> Thrown e g
                             | Inr rootTile \<Rightarrow>
                                (let targetConfig = B (buildingType rootTile) in
                                 case clearLoop (mapSize g) (\<lambda>cx cy. clearedTile)
                                        (footprint rootX rootY (width targetConfig) (height targetConfig))
                                        (grid g) of
                                   Inl e \<Rightarrow> Thrown e g
                                 | Inr newGrid \<Rightarrow>
                                     Returned (g\<lparr> grid := newGrid,
                                       stats := (stats g)\<lparr> money := money (stats g) - 50 \<rparr> \<rparr>)))
                       else Returned (addNewsItem
                              (notice now ''Insufficient credits for demolition crews.'') g))
                    else Returned g))
             else if tool \<notin> set (unlockedBuildings TT (unlockedTechs g)) then
               Returned (addNewsItem (notice now ''Technology not yet researched.'') g)
             else if x + int (width buildingConfig) > int (mapSize g)
                   \<or> y + int (height buildingConfig) > int (mapSize g) then
               Returned (addNewsItem (notice now ''Cannot place here: Outside colony bounds.'') g)
             else
               (case readTile (grid g) x y of
                  Inl e \<Rightarrow> Thrown e g
                | Inr origin \<Rightarrow>
                   (case occupiedLoop
                           (\<lambda>t. (\<not> (tool = GreenRoad \<and> buildingType t = Road)
                                   \<and> buildingType t \<noteq> None_bt)
                                \<or> tile_height t \<noteq> tile_height origin)
                           (grid g) (footprint x y (width buildingConfig) (height buildingConfig))
                           False of
                      Inl e \<Rightarrow> Thrown e g
                    | Inr occupied \<Rightarrow>
                       (if occupied then
                          Returned (addNewsItem (notice now ''Sector occupied or uneven terrain.'') g)
                        else if money (stats g) \<ge> cost buildingConfig then
                          (let g1 = g\<lparr> stats := (stats g)\<lparr> money := money (stats g) - cost buildingConfig \<rparr> \<rparr>
                           in case writeLoop (\<lambda>cx cy. placedTile tool x y \<lfloor>r * 4\<rfloor>)
                                     (footprint x y (width buildingConfig) (height buildingConfig))
                                     (grid g) of
                                Inl e \<Rightarrow> Thrown e g1
                              | Inr newGrid \<Rightarrow> Returned (g1\<lparr> grid := newGrid \<rparr>))
                        else
                          Returned (addNewsItem
                            (notice now (''Insufficient credits for '' @ name buildingConfig @ ''.'')) g)))))))"

section \<open>Tick engine: one tick of the game\<close>

text \<open>
  The interval callback. The totals are taken from the grid before the auto-builder runs;
  the auto-builder's debit is applied before the stats updater. The alerts are added in the
  order of the source text. The chart history and the asynchronous news request are left
  out: they read the stats and write only the history buffer and the news feed.
\<close>

record TickDraws =
  t_auto :: Draws
  t_death :: real
  t_co2 :: real
  t_o2 :: real
  t_starve :: real
  t_power :: real

record TickDraws_basic =
  tb_auto :: Draws_basic
  tb_power :: real

definition alert :: "bool \<Rightarrow> string \<Rightarrow> string \<Rightarrow> ('s, 'm) Game_scheme \<Rightarrow> ('s, 'm) Game_scheme" where
  "alert c now txt g = (if c then addNewsItem (notice now txt) g else g)"

definition tick_basic ::
  "Catalog \<Rightarrow> TechNode list \<Rightarrow> TickDraws_basic \<Rightarrow> string \<Rightarrow> CityStats_basic Game
     \<Rightarrow> CityStats_basic Game outcome" where
  "tick_basic B TT d now g =
     (if \<not> gameStarted g then Returned g
      else
        (let raw = aggregate_basic B (grid g);
             lowPower = isLowPower (powerGen_total raw) (powerDrain raw);
             a = powerPenalty_basic raw
         in case (if autoGrowth g then attemptAutoBuild_basic B TT (tb_auto d) g else Returned g) of
              Thrown e g' \<Rightarrow> Thrown e g'
            | Returned g1 \<Rightarrow>
               (let newStats = tickStats_basic a (stats g1);
                    g2 = g1\<lparr> stats := newStats,
                            currentGoal := checkGoal (aiEnabled g) (currentGoal g)
                                             (buildingCounts a) newStats \<rparr>
                in Returned
                     (alert (lowPower \<and> tb_power d < 0.1) now
                        ''WARNING: Power grid insufficient. Systems failing.'' g2))))"

definition tick ::
  "Catalog \<Rightarrow> TechNode list \<Rightarrow> PopRates \<Rightarrow> TickDraws \<Rightarrow> string \<Rightarrow> CityStats GameX
     \<Rightarrow> CityStats GameX outcome" where
  "tick B TT R d now g =
     (if \<not> gameStarted g then Returned g
      else
        (let raw = aggregate B (grid g);
             lowPower = isLowPower (powerGen_total raw) (powerDrain raw);
             a = powerPenalty raw
         in case (if autoGrowth g then attemptAutoBuild B TT (t_auto d) g else Returned g) of
              Thrown e g' \<Rightarrow> Thrown e g'
            | Returned g1 \<Rightarrow>
               (let prev = stats g1;
                    newStats = tickStats R a prev;
                    dt = deathToll (starvationOf R a prev) (newO2Of R a prev) (newCO2Of R a prev)
                           (population prev);
                    g2 = alert (dt > 0 \<and> t_death d < 0.2) now
                           ''CRITICAL: Life support failure causing casualties.'' g1;
                    g3 = alert (co2 newStats > 1500 \<and> t_co2 d < 0.1) now
                           ''WARNING: High CO2 levels detected.'' g2;
                    g4 = alert (oxygen newStats < 20 \<and> t_o2 d < 0.1) now
                           ''WARNING: Low Oxygen levels.'' g3;
                    g5 = alert (starvationOf R a prev > 0 \<and> t_starve d < 0.1) now
                           ''WARNING: Food stocks depleted.'' g4;
                    g6 = g5\<lparr> stats := newStats,
                            currentGoal := checkGoal (aiEnabled g) (currentGoal g)
                                             (buildingCounts a) newStats \<rparr>
                in Returned
                     (alert (lowPower \<and> t_power d < 0.1) now
                        ''WARNING: Power grid insufficient. Systems failing.'' g6))))"

section \<open>Runs of the extended game\<close>

text \<open>
  What can happen to a started game: a tick, a click on a tile, the UI actions and the
  arrival of a goal from the goal service.
\<close>

datatype Event =
    Tick TickDraws string
  | TileClick real string int int
  | SelectTool BuildingType
  | UnlockTech string string
  | ClaimReward string
  | GoalArrives AIGoal
  | ToggleAutoGrowth
  | SetViewMode ViewMode

definition stateOf :: "'g outcome \<Rightarrow> 'g" where
  "stateOf r = (case r of Returned g \<Rightarrow> g | Thrown e g \<Rightarrow> g)"

fun step ::
  "Catalog \<Rightarrow> TechNode list \<Rightarrow> PopRates \<Rightarrow> (real \<Rightarrow> string) \<Rightarrow> CityStats GameX \<Rightarrow> Event
     \<Rightarrow> CityStats GameX" where
  "step B TT R str g (Tick d now) = stateOf (tick B TT R d now g)"
| "step B TT R str g (TileClick r now x y) = stateOf (handleTileClick B TT r now x y g)"
| "step B TT R str g (SelectTool k) = g\<lparr> selectedTool := k \<rparr>"
| "step B TT R str g (UnlockTech now techId) = handleUnlockTech TT now techId g"
| "step B TT R str g (ClaimReward now) = handleClaimReward str now g"
| "step B TT R str g (GoalArrives goal) = (if aiEnabled g then g\<lparr> currentGoal := Some goal \<rparr> else g)"
| "step B TT R str g ToggleAutoGrowth = g\<lparr> autoGrowth := \<not> autoGrowth g \<rparr>"
| "step B TT R str g (SetViewMode v) = g\<lparr> viewMode := v \<rparr>"

definition run ::
  "Catalog \<Rightarrow> TechNode list \<Rightarrow> PopRates \<Rightarrow> (real \<Rightarrow> string) \<Rightarrow> CityStats GameX \<Rightarrow> Event list
     \<Rightarrow> CityStats GameX" where
  "run B TT R str g evs = foldl (step B TT R str) g evs"

text \<open>The stats of a new game (\<open>INITIAL_MONEY\<close> is 2000).\<close>

definition initialStats :: CityStats where
  "initialStats = \<lparr> money = 2000, population = 0, day = 1, science = 0, powerSupply = 0,
     powerDemand = 0, oxygen = 100, co2 = 400, food = 100 \<rparr>"

text \<open>
  A grid of size \<open>n\<close> as \<open>createInitialGrid\<close> builds it and the handlers keep it: \<open>n\<close> rows of
  \<open>n\<close> tiles, each tile holding its own coordinates.
\<close>

definition wf_grid :: "nat \<Rightarrow> Grid \<Rightarrow> bool" where
  "wf_grid n g =
     (length g = n \<and> list_all (\<lambda>row. length row = n) g
      \<and> list_all (\<lambda>cy. list_all (\<lambda>cx. tile_x (g ! cy ! cx) = int cx \<and> tile_y (g ! cy ! cx) = int cy)
                         [0..<n]) [0..<n])"

text \<open>
  Vocabulary for the statements about grids: the two size conditions of \<open>wf_grid\<close>, the
  tile at a coordinate of the grid, and the coordinates that lie on a map of size \<open>n\<close>.
\<close>

definition dims :: "nat \<Rightarrow> Grid \<Rightarrow> bool" where
  "dims n g = (length g = n \<and> list_all (\<lambda>row. length row = n) g)"

definition tileOf :: "Grid \<Rightarrow> int \<Rightarrow> int \<Rightarrow> TileData" where
  "tileOf g cx cy = g ! nat cy ! nat cx"

definition inGrid :: "nat \<Rightarrow> int \<Rightarrow> int \<Rightarrow> bool" where
  "inGrid n cx cy = (0 \<le> cx \<and> cx < int n \<and> 0 \<le> cy \<and> cy < int n)"

section \<open>Sample inputs\<close>

text \<open>
  Concrete inputs at which the theorems below are instantiated. The sample catalog takes
  names, costs, crew and income yields from \<open>constants.tsx\<close>; the footprints and the other
  yields, which that file does not give, are sample values, as are the rates and the
  research tree.
\<close>

definition cfg :: "string \<Rightarrow> real \<Rightarrow> real \<Rightarrow> real \<Rightarrow> real \<Rightarrow> nat \<Rightarrow> nat \<Rightarrow> BuildingConfig" where
  "cfg nm c pop inc pow w h =
     \<lparr> cost = c, name = nm, popGen = pop, incomeGen = inc, powerGen = pow, scienceGen = 0,
       foodGen = 0, oxygenGen = 0, co2Gen = 0, width = w, height = h \<rparr>"

fun sampleCatalog :: Catalog where
  "sampleCatalog None_bt = cfg ''Recycle'' 0 0 0 0 1 1"
| "sampleCatalog Road = cfg ''Corridor'' 15 0 0 0 1 1"
| "sampleCatalog Residential = cfg ''Habitation'' 150 5 0 (-5) 2 1"
| "sampleCatalog Commercial = cfg ''Comms Hub'' 300 0 15 (-10) 1 1"
| "sampleCatalog Industrial = cfg ''Reactor'' 500 0 40 (-20) 2 2"
| "sampleCatalog Agriculture = (cfg ''Hydroponics'' 200 0 0 (-5) 1 1)\<lparr> foodGen := 10, oxygenGen := 1 \<rparr>"
| "sampleCatalog Park = (cfg ''Bio-Dome'' 100 1 0 0 1 1)\<lparr> oxygenGen := 2 \<rparr>"
| "sampleCatalog SolarPanel = cfg ''Solar Array'' 200 0 0 5 1 1"
| "sampleCatalog FusionReactor = cfg ''Fusion Core'' 3000 0 0 200 2 2"
| "sampleCatalog ResearchLab = (cfg ''Laboratory'' 1000 0 0 (-30) 1 1)\<lparr> scienceGen := 5 \<rparr>"
| "sampleCatalog GreenRoad = cfg ''Green Corridor'' 30 0 0 0 1 1"

definition sampleRates :: PopRates where
  "sampleRates = \<lparr> POP_FOOD_CONSUMPTION = 0.5, POP_O2_CONSUMPTION = 0.1, POP_CO2_PRODUCTION = 1 \<rparr>"

definition sampleTechs :: "TechNode list" where
  "sampleTechs =
     [ \<lparr> tech_id = ''basics'', tech_name = ''Colony Basics'', tech_cost = 0,
         unlocks = [Road, Residential, Commercial], prerequisites = [] \<rparr>,
       \<lparr> tech_id = ''solar'', tech_name = ''Photovoltaics'', tech_cost = 50,
         unlocks = [SolarPanel], prerequisites = [''basics''] \<rparr> ]"

definition emptyTile :: "int \<Rightarrow> int \<Rightarrow> TileData" where
  "emptyTile cx cy =
     \<lparr> tile_x = cx, tile_y = cy, buildingType = None_bt, ownerX = None, ownerY = None,
       variant = None, tile_height = Some 0 \<rparr>"

definition builtTile :: "BuildingType \<Rightarrow> int \<Rightarrow> int \<Rightarrow> TileData" where
  "builtTile k cx cy = (emptyTile cx cy)\<lparr> buildingType := k, ownerX := Some cx, ownerY := Some cy \<rparr>"

text \<open>A flat empty map of size 2.\<close>

definition flatGrid2 :: Grid where
  "flatGrid2 = [[emptyTile 0 0, emptyTile 1 0], [emptyTile 0 1, emptyTile 1 1]]"

text \<open>A map of size 2 with a comms hub, a solar array and a corridor.\<close>

definition townGrid2 :: Grid where
  "townGrid2 = [[builtTile Commercial 0 0, builtTile SolarPanel 1 0],
                [builtTile Road 0 1, emptyTile 1 1]]"

definition sampleGame_basic :: "CityStats_basic Game" where
  "sampleGame_basic =
     \<lparr> gameStarted = True, mapSize = 2, aiEnabled = True, autoGrowth = False, grid = flatGrid2,
       stats = \<lparr> money = 2000, population = 0, day = 1, science = 0, powerSupply = 0,
                 powerDemand = 0 \<rparr>,
       selectedTool = Road, unlockedTechs = [''basics''], currentGoal = None, newsFeed = [] \<rparr>"

definition sampleGame :: "CityStats GameX" where
  "sampleGame =
     \<lparr> gameStarted = True, mapSize = 2, aiEnabled = True, autoGrowth = False, grid = flatGrid2,
       stats = initialStats,
       selectedTool = Road, unlockedTechs = [''basics''], currentGoal = None, newsFeed = [],
       viewMode = standard \<rparr>"

section \<open>Vocabulary of the statements, and further sample inputs\<close>

text \<open>
  A draw of \<open>Math.random()\<close> lies in \<open>[0, 1)\<close>. \<open>repainted n g g' ps f\<close>: the grid \<open>g'\<close> of
  size \<open>n\<close> is \<open>g\<close> with \<open>f\<close> applied to the tiles at the coordinates \<open>ps\<close>.
\<close>

definition unitDraw :: "real \<Rightarrow> bool" where
  "unitDraw r = (0 \<le> r \<and> r < 1)"

definition validDraws_basic :: "Draws_basic \<Rightarrow> bool" where
  "validDraws_basic d =
     (unitDraw (b_pick d) \<and> list_all (\<lambda>i. unitDraw (b_x d i) \<and> unitDraw (b_y d i)) [0..<20])"

definition validDraws :: "Draws \<Rightarrow> bool" where
  "validDraws d =
     (unitDraw (d_green d) \<and> unitDraw (d_pick d) \<and> unitDraw (d_hub d) \<and> unitDraw (d_variant d)
      \<and> list_all (\<lambda>i. unitDraw (d_angle d i) \<and> unitDraw (d_dist d i)) [0..<20])"

definition repainted ::
  "nat \<Rightarrow> Grid \<Rightarrow> Grid \<Rightarrow> (int \<times> int) list \<Rightarrow> (int \<Rightarrow> int \<Rightarrow> TileData \<Rightarrow> TileData) \<Rightarrow> bool" where
  "repainted n g g' ps f =
     (dims n g' \<and>
      (\<forall>ax ay. inGrid n ax ay \<longrightarrow>
         tileOf g' ax ay = (if (ax, ay) \<in> set ps then f ax ay (tileOf g ax ay) else tileOf g ax ay)))"

text \<open>Sample draws, and a sample game in which the solar array is unlocked.\<close>

definition sampleDraws :: Draws where
  "sampleDraws = \<lparr> d_green = 0, d_pick = 0, d_hub = 0, d_angle = (\<lambda>a. 1 / 2),
                   d_dist = (\<lambda>a. 0), d_variant = 1 / 2 \<rparr>"

definition sampleDraws_basic :: Draws_basic where
  "sampleDraws_basic = \<lparr> b_pick = 1 / 2, b_x = (\<lambda>a. 0), b_y = (\<lambda>a. 0) \<rparr>"

definition solarGame :: "CityStats GameX" where
  "solarGame = sampleGame\<lparr> unlockedTechs := [''basics'', ''solar''] \<rparr>"

text \<open>
  The goal test in the words of the spec: the stat named by the target type (for
  \<open>building_count\<close>, the count of the goal's building kind) has reached the target value.
\<close>

definition metBy :: "AIGoal \<Rightarrow> (BuildingType \<Rightarrow> nat) \<Rightarrow> 's CityStats_basic_scheme \<Rightarrow> bool" where
  "metBy goal counts newStats =
     (case targetType goal of
        T_money \<Rightarrow> targetValue goal \<le> money newStats
      | T_population \<Rightarrow> targetValue goal \<le> population newStats
      | T_science \<Rightarrow> targetValue goal \<le> science newStats
      | T_building_count \<Rightarrow>
          (case goalBuildingType goal of
             Some k \<Rightarrow> targetValue goal \<le> real (counts k)
           | None \<Rightarrow> False))"

text \<open>A sample goal, sample draws of a tick, and a town before and after one tick.\<close>

definition sampleGoal :: AIGoal where
  "sampleGoal = \<lparr> description = ''Stockpile credits for emergency repairs.'',
                  targetType = T_money, targetValue = 2007, goalBuildingType = None,
                  reward = 200, completed = False \<rparr>"

definition sampleTickDraws :: TickDraws where
  "sampleTickDraws = \<lparr> t_auto = sampleDraws, t_death = 1 / 2, t_co2 = 1 / 2, t_o2 = 1 / 2,
                       t_starve = 1 / 2, t_power = 1 / 2 \<rparr>"

definition townGame :: "CityStats GameX" where
  "townGame = sampleGame\<lparr> grid := townGrid2, currentGoal := Some sampleGoal \<rparr>"

definition townGameAfter :: "CityStats GameX" where
  "townGameAfter =
     townGame\<lparr> stats := \<lparr> money = 2007, population = 0, day = 2, science = 0, powerSupply = 5,
                           powerDemand = 10, oxygen = 100, co2 = 400, food = 100 \<rparr>,
               currentGoal := Some (sampleGoal\<lparr> completed := True \<rparr>) \<rparr>"

text \<open>The kinds a research id unlocks, as a set.\<close>

definition unlocksOf :: "TechNode list \<Rightarrow> string \<Rightarrow> BuildingType set" where
  "unlocksOf TT techId = (case findTech TT techId of None \<Rightarrow> {} | Some tech \<Rightarrow> set (unlocks tech))"

text \<open>
  The bounds on the atmosphere, and two stats with the same atmosphere.
\<close>

definition airOK :: "CityStats \<Rightarrow> bool" where
  "airOK s = (0 \<le> oxygen s \<and> oxygen s \<le> 100 \<and> 300 \<le> co2 s)"

definition sameAir :: "CityStats \<Rightarrow> CityStats \<Rightarrow> bool" where
  "sameAir s s' = (oxygen s' = oxygen s \<and> co2 s' = co2 s)"

text \<open>
  The root of a tile as the demolition resolves it (\<open>ownerX\<close>, \<open>ownerY\<close>, each falling back
  to the tile's own coordinate), and the coordinates a footprint of size \<open>w\<close> by \<open>h\<close> at
  \<open>(rx, ry)\<close> covers.
\<close>

definition rootXOf :: "TileData \<Rightarrow> int" where
  "rootXOf ct = (case ownerX ct of Some ox \<Rightarrow> ox | None \<Rightarrow> tile_x ct)"

definition rootYOf :: "TileData \<Rightarrow> int" where
  "rootYOf ct = (case ownerY ct of Some oy \<Rightarrow> oy | None \<Rightarrow> tile_y ct)"

definition covered :: "int \<Rightarrow> int \<Rightarrow> nat \<Rightarrow> nat \<Rightarrow> int \<Rightarrow> int \<Rightarrow> bool" where
  "covered rx ry w h ax ay = (rx \<le> ax \<and> ax < rx + int w \<and> ry \<le> ay \<and> ay < ry + int h)"

text \<open>
  A map of size 2 whose habitation module (2 by 1 in the sample catalog) has its root in
  the last column, and games with the demolition tool selected on it.
\<close>

definition edgeGrid2 :: Grid where
  "edgeGrid2 = [[emptyTile 0 0, emptyTile 1 0],
                [builtTile Commercial 0 1, builtTile Residential 1 1]]"

definition edgeGame :: "CityStats GameX" where
  "edgeGame = sampleGame\<lparr> grid := edgeGrid2, selectedTool := None_bt \<rparr>"

definition edgeGame_basic :: "CityStats_basic Game" where
  "edgeGame_basic = sampleGame_basic\<lparr> grid := edgeGrid2, selectedTool := None_bt \<rparr>"

text \<open>
  The test of the extended \<open>handleTileClick\<close> that marks a tile of the footprint as
  occupied or uneven, and the game after a negative notice with text \<open>txt\<close>.
\<close>

definition blocked :: "BuildingType \<Rightarrow> TileData \<Rightarrow> TileData \<Rightarrow> bool" where
  "blocked tool origin t =
     ((\<not> (tool = GreenRoad \<and> buildingType t = Road) \<and> buildingType t \<noteq> None_bt)
      \<or> tile_height t \<noteq> tile_height origin)"

definition noticed :: "string \<Rightarrow> string \<Rightarrow> ('s, 'm) Game_scheme \<Rightarrow> ('s, 'm) Game_scheme" where
  "noticed now txt g =
     g\<lparr> newsFeed := drop (length (newsFeed g) - 12) (newsFeed g)
                      @ [\<lparr> news_id = now, news_text = txt, news_type = negative \<rparr>] \<rparr>"

text \<open>A town in which the selected tool is the corridor, and one with a tool not yet unlocked.\<close>

definition roadGame :: "CityStats GameX" where
  "roadGame = sampleGame\<lparr> grid := townGrid2 \<rparr>"

definition lockedGame_basic :: "CityStats_basic Game" where
  "lockedGame_basic = sampleGame_basic\<lparr> selectedTool := SolarPanel \<rparr>"


section \<open>Death toll\<close>

text \<open>
  C1. The spec lets the suffocation term be 20 percent of the population when the new
  oxygen is below 5. In the code the test for 10 comes first, so the branch for 5 is never
  taken: with no starvation, new oxygen 3, CO2 400 and population 100 the death toll is
  5 (5 percent), not 20.
\<close>

theorem deathToll_oxygen_below_5: "deathToll 0 3 400 100 = 5"
  by (simp add: deathToll_def)

section \<open>Power ratio and power penalty\<close>










lemma binary64_zero: "binary64 0 = 0"
  by (simp add: binary64_def)

lemma binary64_half: "binary64 (1 / 2) = 1 / 2"
  by code_simp

lemma binary64_15_2: "binary64 (15 / 2) = 15 / 2"
  by code_simp


lemma powerRatio_5_10: "powerRatio 5 10 = 1 / 2"
  by code_simp


lemma clamp_pop: "(if (if p > m then m else p) < 0 then 0 else (if p > m then m else p)) = max 0 (min m p)" if "0 \<le> m" for p m :: real
  using that by (auto simp: max_def min_def)






lemma agg_town:
  "dailyIncome (aggregate sampleCatalog townGrid2) = 15"
  "dailyScience (aggregate sampleCatalog townGrid2) = 0"
  "powerGen_total (aggregate sampleCatalog townGrid2) = 5"
  "powerDrain (aggregate sampleCatalog townGrid2) = 10"
  "bioFoodGen (aggregate sampleCatalog townGrid2) = 0"
  "bioO2Gen (aggregate sampleCatalog townGrid2) = 0"
  "buildingCounts (aggregate sampleCatalog townGrid2) Residential = 0"
  "processedRoots (aggregate sampleCatalog townGrid2) = [(0, Some 0), (1, Some 0), (0, Some 1)]"
  by (simp_all add: aggregate_def townGrid2_def aggStep_def totals0_def rootId_def Let_def cfg_def builtTile_def emptyTile_def)


lemma agg_town_basic:
  "dailyIncome (aggregate_basic sampleCatalog townGrid2) = 15"
  "dailyScience (aggregate_basic sampleCatalog townGrid2) = 0"
  "powerGen_total (aggregate_basic sampleCatalog townGrid2) = 5"
  "powerDrain (aggregate_basic sampleCatalog townGrid2) = 10"
  "buildingCounts (aggregate_basic sampleCatalog townGrid2) Residential = 0"
  by (simp_all add: aggregate_basic_def townGrid2_def aggStep_basic_def totals0_basic_def
        rootId_def Let_def cfg_def builtTile_def emptyTile_def)





section \<open>Population after a tick\<close>

lemma newPopOf_bounds:
  "0 \<le> newPopOf R a prev \<and> newPopOf R a prev \<le> maxPopOf (buildingCounts a)"
  by (simp add: newPopOf_def Let_def maxPopOf_def)

lemma powerPenalty_counts: "buildingCounts (powerPenalty raw) = buildingCounts raw"
  by (simp add: powerPenalty_def Let_def)

lemma powerPenalty_basic_counts: "buildingCounts (powerPenalty_basic raw) = buildingCounts raw"
  by (simp add: powerPenalty_basic_def Let_def)

lemma foldl_aggStep_basic_growth_nonneg:
  "\<forall>k. 0 \<le> popGen (B k) \<Longrightarrow> 0 \<le> dailyPopGrowth a \<Longrightarrow>
   0 \<le> dailyPopGrowth (foldl (aggStep_basic B) a ts)"
proof (induction ts arbitrary: a)
  case Nil
  then show ?case by simp
next
  case (Cons t ts)
  have "0 \<le> dailyPopGrowth (aggStep_basic B a t)"
    using Cons.prems by (simp add: aggStep_basic_def Let_def)
  then show ?case using Cons by simp
qed

lemma powerPenalty_basic_growth_nonneg:
  "0 \<le> dailyPopGrowth raw \<Longrightarrow> 0 \<le> dailyPopGrowth (powerPenalty_basic raw)"
  by (simp add: powerPenalty_basic_def Let_def)

lemma basic_growth_nonneg:
  "\<forall>k. 0 \<le> popGen (B k) \<Longrightarrow> 0 \<le> dailyPopGrowth (powerPenalty_basic (aggregate_basic B g))"
  by (rule powerPenalty_basic_growth_nonneg)
     (simp add: aggregate_basic_def foldl_aggStep_basic_growth_nonneg totals0_basic_def)

lemma agg_flat_basic:
  "buildingCounts (aggregate_basic B flatGrid2) k = 0"
  "dailyPopGrowth (aggregate_basic B flatGrid2) = 0"
  "powerDrain (aggregate_basic B flatGrid2) = 0"
  by (simp_all add: aggregate_basic_def flatGrid2_def aggStep_basic_def totals0_basic_def emptyTile_def)

lemma agg_flat:
  "buildingCounts (aggregate B flatGrid2) k = 0"
  "dailyPopGrowth (aggregate B flatGrid2) = 0"
  "powerDrain (aggregate B flatGrid2) = 0"
  "bioFoodGen (aggregate B flatGrid2) = 0"
  "bioO2Gen (aggregate B flatGrid2) = 0"
  "bioCO2Gen (aggregate B flatGrid2) = 0"
  "processedRoots (aggregate B flatGrid2) = []"
  by (simp_all add: aggregate_def flatGrid2_def aggStep_def totals0_def emptyTile_def)

lemma sampleCatalog_popGen: "0 \<le> popGen (sampleCatalog k)"
  by (cases k) (simp_all add: cfg_def)

lemma agg_town_growth:
  "dailyPopGrowth (aggregate_basic sampleCatalog townGrid2) = 0"
  "dailyPopGrowth (aggregate sampleCatalog townGrid2) = 0"
  "bioCO2Gen (aggregate sampleCatalog townGrid2) = 0"
  by (simp_all add: aggregate_basic_def aggregate_def townGrid2_def aggStep_basic_def aggStep_def
        totals0_basic_def totals0_def
        rootId_def Let_def cfg_def builtTile_def emptyTile_def)

text \<open>
  C3, as stated, fails in the basic program: on a map without residential buildings and
  with population 10 the evacuation rule sets the population to 5, above the cap
  \<open>0 \<times> 50\<close>.
\<close>

theorem population_cap_basic_counterexample:
  "\<not> (population (tickStats_basic (powerPenalty_basic (aggregate_basic sampleCatalog flatGrid2))
                    ((stats sampleGame_basic)\<lparr> population := 10 \<rparr>))
        \<le> real (buildingCounts (aggregate_basic sampleCatalog flatGrid2) Residential) * 50)"
  by (simp add: tickStats_basic_def newPopOf_basic_def Let_def powerPenalty_basic_counts agg_flat_basic
        sampleGame_basic_def)

text \<open>
  C3, amended. In the extended program the population after a tick is at least 0 and at
  most 50 times the residential count of the aggregation pass. In the basic program the
  cap holds when there is a residential building or the prior population is not positive;
  with no residential building and a positive prior population the new population is
  \<open>max 0 (prior - 5)\<close>; and the new population is at least 0 when the prior one is and no
  catalog entry has a negative crew yield.
\<close>

theorem population_bounds:
  "(let raw = aggregate B g;
        s = tickStats R (powerPenalty raw) prev
    in 0 \<le> population s \<and> population s \<le> real (buildingCounts raw Residential) * 50)
   \<and> (let raw = aggregate_basic B g;
           resCount = buildingCounts raw Residential;
           s = tickStats_basic (powerPenalty_basic raw) prevb
       in (resCount > 0 \<or> population prevb \<le> 0 \<longrightarrow> population s \<le> real resCount * 50)
          \<and> (resCount = 0 \<and> population prevb > 0 \<longrightarrow> population s = max 0 (population prevb - 5))
          \<and> ((\<forall>k. 0 \<le> popGen (B k)) \<and> 0 \<le> population prevb \<longrightarrow> 0 \<le> population s))"
proof -
  have ext: "0 \<le> population (tickStats R (powerPenalty (aggregate B g)) prev)
           \<and> population (tickStats R (powerPenalty (aggregate B g)) prev)
               \<le> real (buildingCounts (aggregate B g) Residential) * 50"
    using newPopOf_bounds[of R "powerPenalty (aggregate B g)" prev]
    by (simp add: tickStats_def powerPenalty_counts maxPopOf_def)
  define raw where "raw = aggregate_basic B g"
  define s where "s = tickStats_basic (powerPenalty_basic raw) prevb"
  have ps: "population s = newPopOf_basic (powerPenalty_basic raw) prevb"
    by (simp add: s_def tickStats_basic_def)
  have b1: "buildingCounts raw Residential > 0 \<or> population prevb \<le> 0
            \<longrightarrow> population s \<le> real (buildingCounts raw Residential) * 50"
    by (auto simp: ps newPopOf_basic_def Let_def powerPenalty_basic_counts maxPopOf_def)
  have b2: "buildingCounts raw Residential = 0 \<and> population prevb > 0
            \<longrightarrow> population s = max 0 (population prevb - 5)"
    by (simp add: ps newPopOf_basic_def Let_def powerPenalty_basic_counts)
  have b3: "(\<forall>k. 0 \<le> popGen (B k)) \<and> 0 \<le> population prevb \<longrightarrow> 0 \<le> population s"
  proof
    assume h: "(\<forall>k. 0 \<le> popGen (B k)) \<and> 0 \<le> population prevb"
    then have "0 \<le> dailyPopGrowth (powerPenalty_basic raw)"
      unfolding raw_def by (simp add: basic_growth_nonneg)
    with h show "0 \<le> population s"
      by (simp add: ps newPopOf_basic_def Let_def maxPopOf_def)
  qed
  show ?thesis
    unfolding Let_def using ext b1 b2 b3 unfolding s_def raw_def by blast
qed

theorem population_bounds_witness:
  "population (tickStats sampleRates (powerPenalty (aggregate sampleCatalog townGrid2))
                 (initialStats\<lparr> population := 10 \<rparr>)) = 0
   \<and> (\<forall>k. 0 \<le> popGen (sampleCatalog k)) \<and> (0::real) \<le> 10
   \<and> buildingCounts (aggregate_basic sampleCatalog townGrid2) Residential = 0
   \<and> population (tickStats_basic (powerPenalty_basic (aggregate_basic sampleCatalog townGrid2))
                 ((stats sampleGame_basic)\<lparr> population := 10 \<rparr>)) = 5"
  using population_bounds[of sampleCatalog townGrid2 sampleRates "initialStats\<lparr> population := 10 \<rparr>"
          "(stats sampleGame_basic)\<lparr> population := 10 \<rparr>"]
  by (simp add: Let_def agg_town agg_town_basic sampleCatalog_popGen sampleGame_basic_def)


section \<open>Evacuation\<close>

text \<open>
  C4, as stated, fails: on a map without residential buildings the extended program sets
  the population to 0 at once, from 10 as from 20, so the decrease is not a fixed amount;
  the basic program takes 5 from 10 and 3 from 3.
\<close>

theorem evacuation_decrement_counterexample:
  "population (tickStats sampleRates (powerPenalty (aggregate sampleCatalog flatGrid2))
                 (initialStats\<lparr> population := 10 \<rparr>)) = 0
   \<and> population (tickStats sampleRates (powerPenalty (aggregate sampleCatalog flatGrid2))
                 (initialStats\<lparr> population := 20 \<rparr>)) = 0
   \<and> population (tickStats_basic (powerPenalty_basic (aggregate_basic sampleCatalog flatGrid2))
                 ((stats sampleGame_basic)\<lparr> population := 10 \<rparr>)) = 5
   \<and> population (tickStats_basic (powerPenalty_basic (aggregate_basic sampleCatalog flatGrid2))
                 ((stats sampleGame_basic)\<lparr> population := 3 \<rparr>)) = 0
   \<and> 10 - population (tickStats sampleRates (powerPenalty (aggregate sampleCatalog flatGrid2))
                 (initialStats\<lparr> population := 10 \<rparr>))
       \<noteq> 20 - population (tickStats sampleRates (powerPenalty (aggregate sampleCatalog flatGrid2))
                 (initialStats\<lparr> population := 20 \<rparr>))"
proof -
  have e: "population (tickStats sampleRates (powerPenalty (aggregate sampleCatalog flatGrid2)) prev) = 0"
    for prev
    using newPopOf_bounds[of sampleRates "powerPenalty (aggregate sampleCatalog flatGrid2)" prev]
    by (simp add: tickStats_def powerPenalty_counts maxPopOf_def agg_flat)
  have b: "0 < p \<Longrightarrow> population (tickStats_basic (powerPenalty_basic (aggregate_basic sampleCatalog flatGrid2))
                 ((stats sampleGame_basic)\<lparr> population := p \<rparr>)) = max 0 (p - 5)" for p
    by (simp add: tickStats_basic_def newPopOf_basic_def Let_def powerPenalty_basic_counts
          agg_flat_basic)
  show ?thesis using e b[of 10] b[of 3] by simp
qed

text \<open>
  C4, amended. With no residential building and a positive prior population, a tick of the
  basic program sets the population to \<open>max 0 (prior - 5)\<close>, whatever the growth. The
  extended program has no evacuation rule: with no residential building the cap is 0 and
  the population after the tick is 0.
\<close>

theorem evacuation_decrement:
  "(let raw = aggregate_basic B g;
        s = tickStats_basic (powerPenalty_basic raw) prevb
    in buildingCounts raw Residential = 0 \<and> population prevb > 0
       \<longrightarrow> population s = max 0 (population prevb - 5))
   \<and> (let raw = aggregate B g;
           s = tickStats R (powerPenalty raw) prev
       in buildingCounts raw Residential = 0 \<longrightarrow> population s = 0)"
proof -
  have b: "buildingCounts (aggregate_basic B g) Residential = 0 \<and> population prevb > 0
       \<longrightarrow> population (tickStats_basic (powerPenalty_basic (aggregate_basic B g)) prevb)
             = max 0 (population prevb - 5)"
    by (simp add: tickStats_basic_def newPopOf_basic_def Let_def powerPenalty_basic_counts)
  have e: "buildingCounts (aggregate B g) Residential = 0
       \<longrightarrow> population (tickStats R (powerPenalty (aggregate B g)) prev) = 0"
    using newPopOf_bounds[of R "powerPenalty (aggregate B g)" prev]
    by (simp add: tickStats_def powerPenalty_counts maxPopOf_def)
  show ?thesis unfolding Let_def using b e by blast
qed

theorem evacuation_decrement_witness:
  "buildingCounts (aggregate_basic sampleCatalog townGrid2) Residential = 0
   \<and> buildingCounts (aggregate sampleCatalog townGrid2) Residential = 0
   \<and> population (tickStats_basic (powerPenalty_basic (aggregate_basic sampleCatalog townGrid2))
                 ((stats sampleGame_basic)\<lparr> population := 12 \<rparr>)) = 7
   \<and> population (tickStats sampleRates (powerPenalty (aggregate sampleCatalog townGrid2))
                 (initialStats\<lparr> population := 12 \<rparr>)) = 0"
  using evacuation_decrement[of sampleCatalog townGrid2 "(stats sampleGame_basic)\<lparr> population := 12 \<rparr>"
           sampleRates "initialStats\<lparr> population := 12 \<rparr>"]
  by (simp add: Let_def agg_town agg_town_basic sampleGame_basic_def)


section \<open>Grid store: reads, writes and footprints\<close>

lemma wf_grid_dims: "wf_grid n g \<Longrightarrow> dims n g"
  by (simp add: wf_grid_def dims_def)

lemma dims_row: "dims n g \<Longrightarrow> i < n \<Longrightarrow> length (g ! i) = n"
  by (simp add: dims_def list_all_length)

lemma readCell_ok:
  assumes "dims n g" "inGrid n cx cy"
  shows "readCell g cx cy = Inr (Some (tileOf g cx cy))"
proof -
  have len: "length g = n" using assms(1) by (simp add: dims_def)
  have "nat cy < n" using assms(2) by (auto simp: inGrid_def)
  then have row: "length (g ! nat cy) = n" using assms(1) by (simp add: dims_row)
  show ?thesis
    using assms(2) len row by (simp add: readCell_def inGrid_def tileOf_def Let_def)
qed

lemma readTile_ok:
  "dims n g \<Longrightarrow> inGrid n cx cy \<Longrightarrow> readTile g cx cy = Inr (tileOf g cx cy)"
  by (simp add: readTile_def readCell_ok)

lemma updTile_ok:
  assumes "dims n g" "inGrid n cx cy"
  shows "\<exists>g'. updTile g cx cy f = Inr g' \<and> dims n g'
           \<and> (\<forall>ax ay. inGrid n ax ay \<longrightarrow>
                 tileOf g' ax ay = (if (ax, ay) = (cx, cy) then f (tileOf g cx cy) else tileOf g ax ay))"
proof -
  let ?g' = "g[nat cy := (g ! nat cy)[nat cx := f (g ! nat cy ! nat cx)]]"
  have len: "length g = n" using assms(1) by (simp add: dims_def)
  have cyn: "nat cy < n" "nat cx < n" "0 \<le> cx" "0 \<le> cy" using assms(2) by (auto simp: inGrid_def)
  have row: "length (g ! nat cy) = n" using assms(1) cyn by (simp add: dims_row)
  have u: "updTile g cx cy f = Inr ?g'"
    using assms(2) len row by (simp add: updTile_def Let_def inGrid_def)
  have d: "dims n ?g'"
  proof -
    have "length (?g' ! i) = n" if "i < n" for i
      using that len row assms(1) by (cases "i = nat cy") (simp_all add: dims_row)
    then show ?thesis using len by (simp add: dims_def list_all_length)
  qed
  have p: "tileOf ?g' ax ay = (if (ax, ay) = (cx, cy) then f (tileOf g cx cy) else tileOf g ax ay)"
    if "inGrid n ax ay" for ax ay
  proof -
    have a: "nat ay < n" "nat ax < n" "0 \<le> ax" "0 \<le> ay" using that by (auto simp: inGrid_def)
    show ?thesis
    proof (cases "ay = cy")
      case True
      then show ?thesis
        using a cyn len row by (auto simp: tileOf_def nth_list_update)
    next
      case False
      then have "nat ay \<noteq> nat cy" using a cyn by simp
      then show ?thesis using False a len by (simp add: tileOf_def)
    qed
  qed
  show ?thesis using u d p by blast
qed

lemma footprint_union:
  "set (footprint x y w h) = (\<Union>i\<in>{0..<w}. (\<lambda>j. (x + int i, y + int j)) ` {0..<h})"
  by (simp add: footprint_def)

lemma footprint_mem:
  "(cx, cy) \<in> set (footprint x y w h)
   \<longleftrightarrow> (x \<le> cx \<and> cx < x + int w \<and> y \<le> cy \<and> cy < y + int h)"
proof
  assume "(cx, cy) \<in> set (footprint x y w h)"
  then obtain i j where "i < w" "j < h" "cx = x + int i" "cy = y + int j"
    unfolding footprint_union by auto
  then show "x \<le> cx \<and> cx < x + int w \<and> y \<le> cy \<and> cy < y + int h" by simp
next
  assume a: "x \<le> cx \<and> cx < x + int w \<and> y \<le> cy \<and> cy < y + int h"
  define i where "i = nat (cx - x)"
  define j where "j = nat (cy - y)"
  have i: "i \<in> {0..<w}" and j: "j \<in> {0..<h}" using a by (auto simp: i_def j_def)
  have e: "(cx, cy) = (x + int i, y + int j)" using a by (simp add: i_def j_def)
  have "(cx, cy) \<in> (\<lambda>j. (x + int i, y + int j)) ` {0..<h}" using e j by (rule image_eqI)
  then show "(cx, cy) \<in> set (footprint x y w h)"
    unfolding footprint_union using i by blast
qed

lemma footprint_row_distinct: "distinct (map (\<lambda>j. (a, y + int j)) [0..<h])"
  by (simp add: distinct_map inj_on_def)

lemma footprint_distinct: "distinct (footprint x y w h)"
proof (induction w)
  case 0
  then show ?case by (simp add: footprint_def)
next
  case (Suc w)
  have split: "footprint x y (Suc w) h
               = footprint x y w h @ map (\<lambda>j. (x + int w, y + int j)) [0..<h]"
    by (simp add: footprint_def)
  have disj: "set (footprint x y w h) \<inter> set (map (\<lambda>j. (x + int w, y + int j)) [0..<h]) = {}"
  proof -
    have "cx < x + int w" if "(cx, cy) \<in> set (footprint x y w h)" for cx cy
      using that by (simp add: footprint_mem)
    then show ?thesis by fastforce
  qed
  show ?case
    unfolding split using Suc disj footprint_row_distinct by simp
qed

lemma occupiedLoop_ok:
  assumes "dims n g" "\<forall>(cx, cy) \<in> set ps. inGrid n cx cy"
  shows "occupiedLoop bad g ps occ = Inr (occ \<or> (\<exists>(cx, cy) \<in> set ps. bad (tileOf g cx cy)))"
  using assms(2)
proof (induction ps arbitrary: occ)
  case Nil
  then show ?case by simp
next
  case (Cons p ps)
  obtain cx cy where p: "p = (cx, cy)" by (cases p)
  have r: "readTile g cx cy = Inr (tileOf g cx cy)"
    using Cons.prems assms(1) p by (simp add: readTile_ok)
  have "occupiedLoop bad g ps (if bad (tileOf g cx cy) then True else occ)
        = Inr ((if bad (tileOf g cx cy) then True else occ) \<or> (\<exists>(cx, cy) \<in> set ps. bad (tileOf g cx cy)))"
    using Cons by simp
  then show ?case using r p by auto
qed

lemma writeLoop_ok:
  assumes "\<forall>(cx, cy) \<in> set ps. inGrid n cx cy" "distinct ps" "dims n g"
  shows "\<exists>g'. writeLoop f ps g = Inr g' \<and> dims n g'
           \<and> (\<forall>ax ay. inGrid n ax ay \<longrightarrow>
                 tileOf g' ax ay = (if (ax, ay) \<in> set ps then f ax ay (tileOf g ax ay)
                                    else tileOf g ax ay))"
  using assms
proof (induction ps arbitrary: g)
  case Nil
  then show ?case by simp
next
  case (Cons p ps)
  obtain cx cy where p: "p = (cx, cy)" by (cases p)
  have ing: "inGrid n cx cy" using Cons.prems(1) p by simp
  obtain g1 where g1: "updTile g cx cy (f cx cy) = Inr g1" "dims n g1"
     "\<forall>ax ay. inGrid n ax ay \<longrightarrow>
         tileOf g1 ax ay = (if (ax, ay) = (cx, cy) then f cx cy (tileOf g cx cy) else tileOf g ax ay)"
    using updTile_ok[OF Cons.prems(3) ing, of "f cx cy"] by blast
  have "\<forall>(cx, cy) \<in> set ps. inGrid n cx cy" "distinct ps" using Cons.prems by simp_all
  from Cons.IH[OF this g1(2)] obtain g' where g': "writeLoop f ps g1 = Inr g'" "dims n g'"
     "\<forall>ax ay. inGrid n ax ay \<longrightarrow>
         tileOf g' ax ay = (if (ax, ay) \<in> set ps then f ax ay (tileOf g1 ax ay) else tileOf g1 ax ay)"
    by blast
  have notin: "(cx, cy) \<notin> set ps" using Cons.prems(2) p by simp
  have w: "writeLoop f (p # ps) g = Inr g'" using p g1(1) g'(1) by simp
  have "tileOf g' ax ay = (if (ax, ay) \<in> set (p # ps) then f ax ay (tileOf g ax ay) else tileOf g ax ay)"
    if "inGrid n ax ay" for ax ay
    using that g'(3) g1(3) notin p by auto
  then show ?case using w g'(2) by blast
qed

lemma clearLoop_filter:
  "clearLoop n f ps g = writeLoop f (filter (\<lambda>(cx, cy). cy < int n \<and> cx < int n) ps) g"
proof (induction ps arbitrary: g)
  case Nil
  then show ?case by simp
next
  case (Cons p ps)
  obtain cx cy where p: "p = (cx, cy)" by (cases p)
  show ?case using Cons p by (simp split: sum.splits)
qed


section \<open>Auto-builder: safety of a placement\<close>

lemma pickAt_Some_mem:
  assumes "pickAt xs r = Some k"
  shows "k \<in> set xs"
proof -
  define i where "i = \<lfloor>r * real (length xs)\<rfloor>"
  have "0 \<le> i \<and> i < int (length xs) \<and> k = xs ! nat i"
    using assms by (auto simp: pickAt_def Let_def i_def split: if_splits)
  then have "nat i < length xs" "k = xs ! nat i" by auto
  then show ?thesis by simp
qed

lemma pickAt_unit:
  assumes "unitDraw r" "xs \<noteq> []"
  shows "\<exists>k. pickAt xs r = Some k"
proof -
  have n: "0 < real (length xs)" using assms(2) by simp
  have "r * real (length xs) < real (length xs)" using assms(1) n by (simp add: unitDraw_def)
  then have "\<lfloor>r * real (length xs)\<rfloor> < int (length xs)" by (simp add: floor_less_iff)
  moreover have "0 \<le> \<lfloor>r * real (length xs)\<rfloor>" using assms(1) by (simp add: unitDraw_def)
  ultimately show ?thesis by (simp add: pickAt_def Let_def)
qed

lemma ecoOptions_mem: "k \<in> set (ecoOptions available m r) \<Longrightarrow> k \<in> set available \<and> k \<noteq> None_bt"
  by (auto simp: ecoOptions_def split: if_splits)

lemma chooseTarget_mem:
  assumes "chooseTarget available d gr st = Some k"
  shows "k \<in> set available \<and> k \<noteq> None_bt"
proof -
  have "k \<in> set (ecoOptions available (money st) (d_green d))"
    if "pickAt (ecoOptions available (money st) (d_green d)) (d_pick d) = Some k"
    using that by (rule pickAt_Some_mem)
  then have e: "pickAt (ecoOptions available (money st) (d_green d)) (d_pick d) = Some k
       \<Longrightarrow> k \<in> set available \<and> k \<noteq> None_bt"
    using ecoOptions_mem by blast
  show ?thesis
    using assms e unfolding chooseTarget_def Let_def
    by (auto split: if_splits)
qed

text \<open>What a successful placement of the auto-builder looks like.\<close>

lemma attempts_cases:
  assumes d: "dims (mapSize g) (grid g)"
  shows "attempts B dr k sx sy g as = Returned g
         \<or> (\<exists>x y G. 0 \<le> x \<and> 0 \<le> y \<and> x < int (mapSize g) \<and> y < int (mapSize g)
               \<and> x + int (width (B k)) \<le> int (mapSize g)
               \<and> y + int (height (B k)) \<le> int (mapSize g)
               \<and> (\<forall>(cx, cy) \<in> set (footprint x y (width (B k)) (height (B k))).
                      buildingType (tileOf (grid g) cx cy) = None_bt
                    \<and> tile_height (tileOf (grid g) cx cy) = tile_height (tileOf (grid g) x y))
               \<and> writeLoop (\<lambda>cx cy. placedTile k x y \<lfloor>d_variant dr * 4\<rfloor>)
                     (footprint x y (width (B k)) (height (B k))) (grid g) = Inr G
               \<and> attempts B dr k sx sy g as
                   = Returned (g\<lparr> grid := G,
                        stats := (stats g)\<lparr> money := money (stats g) - cost (B k) \<rparr> \<rparr>))"
proof (induction as)
  case Nil
  then show ?case by simp
next
  case (Cons a as)
  define n where "n = mapSize g"
  define x where "x = \<lfloor>sx + cos (d_angle dr a * pi * 2) * (1 + d_dist dr a * 4 + (real a * 0.2))\<rfloor>"
  define y where "y = \<lfloor>sy + sin (d_angle dr a * pi * 2) * (1 + d_dist dr a * 4 + (real a * 0.2))\<rfloor>"
  define w where "w = width (B k)"
  define h where "h = height (B k)"
  define bad :: "TileData \<Rightarrow> bool" where "bad = (\<lambda>t. buildingType t \<noteq> None_bt \<or> tile_height t \<noteq> tile_height (tileOf (grid g) x y))"
  show ?case
  proof (cases "x < 0 \<or> y < 0 \<or> x \<ge> int n \<or> y \<ge> int n \<or> x + int w > int n \<or> y + int h > int n")
    case True
    then have "attempts B dr k sx sy g (a # as) = attempts B dr k sx sy g as"
      unfolding x_def y_def n_def w_def h_def by (auto simp: Let_def)
    then show ?thesis using Cons by simp
  next
    case False
    then have inb: "0 \<le> x" "0 \<le> y" "x < int n" "y < int n" "x + int w \<le> int n" "y + int h \<le> int n"
      by auto
    have org: "readTile (grid g) x y = Inr (tileOf (grid g) x y)"
      using d inb by (simp add: readTile_ok inGrid_def n_def)
    have fin: "\<forall>(cx, cy) \<in> set (footprint x y w h). inGrid n cx cy"
      using inb by (auto simp: footprint_mem inGrid_def)
    have occ: "occupiedLoop bad (grid g) (footprint x y w h) False
               = Inr (\<exists>(cx, cy) \<in> set (footprint x y w h). bad (tileOf (grid g) cx cy))"
      using occupiedLoop_ok[OF d fin[unfolded n_def], of bad False] by simp
    obtain G where G: "writeLoop (\<lambda>cx cy. placedTile k x y \<lfloor>d_variant dr * 4\<rfloor>) (footprint x y w h) (grid g) = Inr G"
      using writeLoop_ok[OF fin footprint_distinct d[folded n_def]] by blast
    have step: "attempts B dr k sx sy g (a # as)
        = (if (\<exists>(cx, cy) \<in> set (footprint x y w h). bad (tileOf (grid g) cx cy))
           then attempts B dr k sx sy g as
           else Returned (g\<lparr> grid := G,
                        stats := (stats g)\<lparr> money := money (stats g) - cost (B k) \<rparr> \<rparr>))"
      using False org occ G
      unfolding x_def y_def n_def w_def h_def bad_def
      by (simp add: Let_def)
    show ?thesis
    proof (cases "\<exists>(cx, cy) \<in> set (footprint x y w h). bad (tileOf (grid g) cx cy)")
      case True
      then show ?thesis using step Cons by simp
    next
      case nb: False
      then have free: "\<forall>(cx, cy) \<in> set (footprint x y w h).
                      buildingType (tileOf (grid g) cx cy) = None_bt
                    \<and> tile_height (tileOf (grid g) cx cy) = tile_height (tileOf (grid g) x y)"
        by (auto simp: bad_def)
      have "attempts B dr k sx sy g (a # as) = Returned (g\<lparr> grid := G,
                        stats := (stats g)\<lparr> money := money (stats g) - cost (B k) \<rparr> \<rparr>)"
        using step nb by simp
      then show ?thesis
        using inb free G unfolding w_def h_def n_def by blast
    qed
  qed
qed

lemma click_places:
  assumes d: "dims (mapSize g) (grid g)"
      and st: "gameStarted g" "viewMode g \<noteq> moon"
      and tool: "selectedTool g = k" "k \<noteq> None_bt" "k \<in> set (unlockedBuildings TT (unlockedTechs g))"
      and inb: "0 \<le> x" "0 \<le> y" "x < int (mapSize g)" "y < int (mapSize g)"
               "x + int (width (B k)) \<le> int (mapSize g)" "y + int (height (B k)) \<le> int (mapSize g)"
      and free: "\<forall>(cx, cy) \<in> set (footprint x y (width (B k)) (height (B k))).
                      buildingType (tileOf (grid g) cx cy) = None_bt
                    \<and> tile_height (tileOf (grid g) cx cy) = tile_height (tileOf (grid g) x y)"
      and funds: "cost (B k) \<le> money (stats g)"
      and G: "writeLoop (\<lambda>cx cy. placedTile k x y \<lfloor>r * 4\<rfloor>)
                 (footprint x y (width (B k)) (height (B k))) (grid g) = Inr G"
  shows "handleTileClick B TT r now x y g
         = Returned (g\<lparr> grid := G, stats := (stats g)\<lparr> money := money (stats g) - cost (B k) \<rparr> \<rparr>)"
proof -
  define bad :: "TileData \<Rightarrow> bool" where
    "bad = (\<lambda>t. (\<not> (k = GreenRoad \<and> buildingType t = Road) \<and> buildingType t \<noteq> None_bt)
               \<or> tile_height t \<noteq> tile_height (tileOf (grid g) x y))"
  have cell: "readCell (grid g) x y = Inr (Some (tileOf (grid g) x y))"
    using d inb by (simp add: readCell_ok inGrid_def)
  have org: "readTile (grid g) x y = Inr (tileOf (grid g) x y)"
    using d inb by (simp add: readTile_ok inGrid_def)
  have fin: "\<forall>(cx, cy) \<in> set (footprint x y (width (B k)) (height (B k))). inGrid (mapSize g) cx cy"
    using inb by (auto simp: footprint_mem inGrid_def)
  have nb: "\<not> (\<exists>(cx, cy) \<in> set (footprint x y (width (B k)) (height (B k))). bad (tileOf (grid g) cx cy))"
    using free by (auto simp: bad_def)
  have occ: "occupiedLoop bad (grid g) (footprint x y (width (B k)) (height (B k))) False = Inr False"
    using occupiedLoop_ok[OF d fin, of bad False] nb by simp
  show ?thesis
    unfolding handleTileClick_def
    using st tool inb funds cell org occ[unfolded bad_def] G
    by (simp add: Let_def)
qed

lemma writeLoop_repainted:
  assumes "\<forall>(cx, cy) \<in> set ps. inGrid n cx cy" "distinct ps" "dims n g" "writeLoop f ps g = Inr G"
  shows "repainted n g G ps f"
  using writeLoop_ok[OF assms(1,2,3), of f] assms(4) by (auto simp: repainted_def)

lemma occupiedInner_basic_ok:
  assumes "dims n g" "\<forall>j \<in> set js. inGrid n cx (y + int j)"
  shows "occupiedInner_basic g cx y js occ
         = Inr (occ \<or> (\<exists>j \<in> set js. buildingType (tileOf g cx (y + int j)) \<noteq> None_bt))"
  using assms(2)
proof (induction js)
  case Nil
  then show ?case by simp
next
  case (Cons j js)
  have r: "readTile g cx (y + int j) = Inr (tileOf g cx (y + int j))"
    using Cons.prems assms(1) by (simp add: readTile_ok)
  have "occupiedInner_basic g cx y js occ
         = Inr (occ \<or> (\<exists>j \<in> set js. buildingType (tileOf g cx (y + int j)) \<noteq> None_bt))"
    using Cons by simp
  then show ?case using r by auto
qed

lemma occupiedOuter_basic_ok:
  assumes "dims n g" "\<forall>i \<in> set is. \<forall>j < h. inGrid n (x + int i) (y + int j)"
  shows "occupiedOuter_basic g x y h is occ
         = Inr (occ \<or> (\<exists>i \<in> set is. \<exists>j < h. buildingType (tileOf g (x + int i) (y + int j)) \<noteq> None_bt))"
  using assms(2)
proof (induction "is" arbitrary: occ)
  case Nil
  then show ?case by simp
next
  case (Cons i "is")
  have "\<forall>j \<in> set [0..<h]. inGrid n (x + int i) (y + int j)" using Cons.prems by simp
  from occupiedInner_basic_ok[OF assms(1) this, of occ]
  have inner: "occupiedInner_basic g (x + int i) y [0..<h] occ
         = Inr (occ \<or> (\<exists>j < h. buildingType (tileOf g (x + int i) (y + int j)) \<noteq> None_bt))"
    by auto
  have "\<forall>i \<in> set is. \<forall>j < h. inGrid n (x + int i) (y + int j)" using Cons.prems by simp
  from Cons.IH[OF this]
  have rest: "occupiedOuter_basic g x y h is occ'
         = Inr (occ' \<or> (\<exists>i \<in> set is. \<exists>j < h. buildingType (tileOf g (x + int i) (y + int j)) \<noteq> None_bt))"
    for occ' by simp
  show ?case using inner rest by auto
qed

lemma footprint_ex:
  "(\<exists>(cx, cy) \<in> set (footprint x y w h). P cx cy) \<longleftrightarrow> (\<exists>i < w. \<exists>j < h. P (x + int i) (y + int j))"
proof
  assume "\<exists>(cx, cy) \<in> set (footprint x y w h). P cx cy"
  then obtain cx cy where m: "(cx, cy) \<in> set (footprint x y w h)" and p: "P cx cy" by auto
  from m obtain i j where "i < w" "j < h" "cx = x + int i" "cy = y + int j"
    unfolding footprint_union by auto
  with p show "\<exists>i < w. \<exists>j < h. P (x + int i) (y + int j)" by auto
next
  assume "\<exists>i < w. \<exists>j < h. P (x + int i) (y + int j)"
  then obtain i j where ij: "i < w" "j < h" "P (x + int i) (y + int j)" by auto
  then have "(x + int i, y + int j) \<in> set (footprint x y w h)" by (simp add: footprint_mem)
  with ij(3) show "\<exists>(cx, cy) \<in> set (footprint x y w h). P cx cy" by auto
qed

lemma occupied_basic_footprint:
  assumes "dims n g" "\<forall>(cx, cy) \<in> set (footprint x y w h). inGrid n cx cy"
  shows "occupiedOuter_basic g x y h [0..<w] False
         = Inr (\<exists>(cx, cy) \<in> set (footprint x y w h). buildingType (tileOf g cx cy) \<noteq> None_bt)"
proof -
  have "\<forall>i \<in> set [0..<w]. \<forall>j < h. inGrid n (x + int i) (y + int j)"
    using assms(2) by (auto simp: footprint_mem)
  from occupiedOuter_basic_ok[OF assms(1) this, of False]
  have "occupiedOuter_basic g x y h [0..<w] False
        = Inr (\<exists>i < w. \<exists>j < h. buildingType (tileOf g (x + int i) (y + int j)) \<noteq> None_bt)"
    by (auto simp: Bex_def)
  then show ?thesis
    by (simp add: footprint_ex[where P = "\<lambda>cx cy. buildingType (tileOf g cx cy) \<noteq> None_bt"])
qed

lemma click_places_basic:
  assumes d: "dims (mapSize g) (grid g)"
      and st: "gameStarted g"
      and tool: "selectedTool g = k" "k \<noteq> None_bt" "k \<in> set (unlockedBuildings TT (unlockedTechs g))"
      and inb: "0 \<le> x" "0 \<le> y" "x < int (mapSize g)" "y < int (mapSize g)"
               "x + int (width (B k)) \<le> int (mapSize g)" "y + int (height (B k)) \<le> int (mapSize g)"
      and free: "\<forall>(cx, cy) \<in> set (footprint x y (width (B k)) (height (B k))).
                      buildingType (tileOf (grid g) cx cy) = None_bt"
      and funds: "cost (B k) \<le> money (stats g)"
      and G: "writeLoop (\<lambda>cx cy. placedTile_basic k x y)
                 (footprint x y (width (B k)) (height (B k))) (grid g) = Inr G"
  shows "handleTileClick_basic B TT now x y g
         = Returned (g\<lparr> grid := G, stats := (stats g)\<lparr> money := money (stats g) - cost (B k) \<rparr> \<rparr>)"
proof -
  have cell: "readCell (grid g) x y = Inr (Some (tileOf (grid g) x y))"
    using d inb by (simp add: readCell_ok inGrid_def)
  have fin: "\<forall>(cx, cy) \<in> set (footprint x y (width (B k)) (height (B k))). inGrid (mapSize g) cx cy"
    using inb by (auto simp: footprint_mem inGrid_def)
  have occ: "occupiedOuter_basic (grid g) x y (height (B k)) [0..<width (B k)] False = Inr False"
    using occupied_basic_footprint[OF d fin] free by auto
  show ?thesis
    unfolding handleTileClick_basic_def
    using st tool inb funds cell occ G
    by (simp add: Let_def)
qed

lemma attempts_basic_cases:
  assumes d: "dims (mapSize g) (grid g)" and pos: "0 < mapSize g"
      and dr: "\<forall>a \<in> set as. unitDraw (b_x db a) \<and> unitDraw (b_y db a)"
  shows "attempts_basic B db k g as = Returned g
         \<or> (\<exists>x y G. 0 \<le> x \<and> 0 \<le> y \<and> x < int (mapSize g) \<and> y < int (mapSize g)
               \<and> x + int (width (B k)) \<le> int (mapSize g)
               \<and> y + int (height (B k)) \<le> int (mapSize g)
               \<and> (\<forall>(cx, cy) \<in> set (footprint x y (width (B k)) (height (B k))).
                      buildingType (tileOf (grid g) cx cy) = None_bt)
               \<and> writeLoop (\<lambda>cx cy. placedTile_basic k x y)
                     (footprint x y (width (B k)) (height (B k))) (grid g) = Inr G
               \<and> attempts_basic B db k g as
                   = Returned (g\<lparr> grid := G,
                        stats := (stats g)\<lparr> money := money (stats g) - cost (B k) \<rparr> \<rparr>))"
  using dr
proof (induction as)
  case Nil
  then show ?case by simp
next
  case (Cons a as)
  define n where "n = mapSize g"
  define x where "x = \<lfloor>b_x db a * real n\<rfloor>"
  define y where "y = \<lfloor>b_y db a * real n\<rfloor>"
  define w where "w = width (B k)"
  define h where "h = height (B k)"
  define bad :: "TileData \<Rightarrow> bool" where "bad = (\<lambda>t. buildingType t \<noteq> None_bt)"
  have ua: "unitDraw (b_x db a)" "unitDraw (b_y db a)" using Cons.prems by simp_all
  have npos: "0 < real n" using pos by (simp add: n_def)
  have "b_x db a * real n < real n" "b_y db a * real n < real n"
    using ua npos by (simp_all add: unitDraw_def)
  then have lt: "x < int n" "y < int n" by (simp_all add: x_def y_def floor_less_iff)
  have ge: "0 \<le> x" "0 \<le> y" using ua by (simp_all add: x_def y_def unitDraw_def)
  have IH: "attempts_basic B db k g as = Returned g
         \<or> (\<exists>x y G. 0 \<le> x \<and> 0 \<le> y \<and> x < int (mapSize g) \<and> y < int (mapSize g)
               \<and> x + int (width (B k)) \<le> int (mapSize g)
               \<and> y + int (height (B k)) \<le> int (mapSize g)
               \<and> (\<forall>(cx, cy) \<in> set (footprint x y (width (B k)) (height (B k))).
                      buildingType (tileOf (grid g) cx cy) = None_bt)
               \<and> writeLoop (\<lambda>cx cy. placedTile_basic k x y)
                     (footprint x y (width (B k)) (height (B k))) (grid g) = Inr G
               \<and> attempts_basic B db k g as
                   = Returned (g\<lparr> grid := G,
                        stats := (stats g)\<lparr> money := money (stats g) - cost (B k) \<rparr> \<rparr>))"
    using Cons by simp
  show ?case
  proof (cases "x + int w > int n \<or> y + int h > int n")
    case True
    then have "attempts_basic B db k g (a # as) = attempts_basic B db k g as"
      unfolding x_def y_def n_def w_def h_def by (auto simp: Let_def)
    then show ?thesis using IH by simp
  next
    case False
    then have inb: "x + int w \<le> int n" "y + int h \<le> int n" by auto
    have fin: "\<forall>(cx, cy) \<in> set (footprint x y w h). inGrid n cx cy"
      using inb ge by (auto simp: footprint_mem inGrid_def)
    have occ: "occupiedLoop bad (grid g) (footprint x y w h) False
               = Inr (\<exists>(cx, cy) \<in> set (footprint x y w h). bad (tileOf (grid g) cx cy))"
      using occupiedLoop_ok[OF d fin[unfolded n_def], of bad False] by simp
    obtain G where G: "writeLoop (\<lambda>cx cy. placedTile_basic k x y) (footprint x y w h) (grid g) = Inr G"
      using writeLoop_ok[OF fin footprint_distinct d[folded n_def]] by blast
    have step: "attempts_basic B db k g (a # as)
        = (if (\<exists>(cx, cy) \<in> set (footprint x y w h). bad (tileOf (grid g) cx cy))
           then attempts_basic B db k g as
           else Returned (g\<lparr> grid := G,
                        stats := (stats g)\<lparr> money := money (stats g) - cost (B k) \<rparr> \<rparr>))"
      using False occ G
      unfolding x_def y_def n_def w_def h_def bad_def
      by (simp add: Let_def)
    show ?thesis
    proof (cases "\<exists>(cx, cy) \<in> set (footprint x y w h). bad (tileOf (grid g) cx cy)")
      case True
      then show ?thesis using step IH by simp
    next
      case nb: False
      then have free: "\<forall>(cx, cy) \<in> set (footprint x y w h).
                      buildingType (tileOf (grid g) cx cy) = None_bt"
        by (auto simp: bad_def)
      have "attempts_basic B db k g (a # as) = Returned (g\<lparr> grid := G,
                        stats := (stats g)\<lparr> money := money (stats g) - cost (B k) \<rparr> \<rparr>)"
        using step nb by simp
      then show ?thesis
        using inb ge lt free G unfolding w_def h_def n_def by blast
    qed
  qed
qed

lemma autoBuild_ext:
  assumes d: "dims (mapSize g) (grid g)" and v: "validDraws dr"
  shows "attemptAutoBuild B TT dr g = Returned g
         \<or> (\<exists>k x y G. k \<in> set (unlockedBuildings TT (unlockedTechs g)) \<and> k \<noteq> None_bt
               \<and> cost (B k) \<le> money (stats g)
               \<and> 0 \<le> x \<and> 0 \<le> y \<and> x < int (mapSize g) \<and> y < int (mapSize g)
               \<and> x + int (width (B k)) \<le> int (mapSize g)
               \<and> y + int (height (B k)) \<le> int (mapSize g)
               \<and> (\<forall>(cx, cy) \<in> set (footprint x y (width (B k)) (height (B k))).
                      buildingType (tileOf (grid g) cx cy) = None_bt
                    \<and> tile_height (tileOf (grid g) cx cy) = tile_height (tileOf (grid g) x y))
               \<and> writeLoop (\<lambda>cx cy. placedTile k x y \<lfloor>d_variant dr * 4\<rfloor>)
                     (footprint x y (width (B k)) (height (B k))) (grid g) = Inr G
               \<and> attemptAutoBuild B TT dr g
                   = Returned (g\<lparr> grid := G,
                        stats := (stats g)\<lparr> money := money (stats g) - cost (B k) \<rparr> \<rparr>))"
proof (cases "money (stats g) < 300")
  case True
  then show ?thesis by (simp add: attemptAutoBuild_def Let_def)
next
  case rich: False
  show ?thesis
  proof (cases "chooseTarget (unlockedBuildings TT (unlockedTechs g)) dr (grid g) (stats g)")
    case None
    then show ?thesis using rich by (simp add: attemptAutoBuild_def Let_def)
  next
    case (Some k)
    then have k: "k \<in> set (unlockedBuildings TT (unlockedTechs g))" "k \<noteq> None_bt"
      using chooseTarget_mem by blast+
    show ?thesis
    proof (cases "money (stats g) < cost (B k)")
      case True
      then show ?thesis using rich Some by (simp add: attemptAutoBuild_def Let_def)
    next
      case funds: False
      define hubs where "hubs = filter (\<lambda>t. buildingType t \<noteq> None_bt) (concat (grid g))"
      have "\<exists>sx sy. attemptAutoBuild B TT dr g = attempts B dr k sx sy g [0..<20]"
      proof (cases "hubs = []")
        case True
        then have "attemptAutoBuild B TT dr g
                   = attempts B dr k (real (mapSize g) / 2) (real (mapSize g) / 2) g [0..<20]"
          using rich Some funds unfolding hubs_def by (simp add: attemptAutoBuild_def Let_def)
        then show ?thesis by blast
      next
        case False
        have "unitDraw (d_hub dr)" using v by (simp add: validDraws_def)
        then obtain hub where "pickAt hubs (d_hub dr) = Some hub"
          using pickAt_unit False by blast
        then have "attemptAutoBuild B TT dr g
                   = attempts B dr k (real_of_int (tile_x hub)) (real_of_int (tile_y hub)) g [0..<20]"
          using rich Some funds False unfolding hubs_def by (simp add: attemptAutoBuild_def Let_def)
        then show ?thesis by blast
      qed
      then obtain sx sy where e: "attemptAutoBuild B TT dr g = attempts B dr k sx sy g [0..<20]"
        by blast
      show ?thesis
        using attempts_cases[OF d, of B dr k sx sy "[0..<20]"] k funds unfolding e
        by (auto simp: not_less)
    qed
  qed
qed

lemma autoBuild_basic:
  assumes d: "dims (mapSize g) (grid g)" and pos: "0 < mapSize g" and v: "validDraws_basic db"
  shows "attemptAutoBuild_basic B TT db g = Returned g
         \<or> (\<exists>k x y G. k \<in> set (unlockedBuildings TT (unlockedTechs g)) \<and> k \<noteq> None_bt
               \<and> cost (B k) \<le> money (stats g)
               \<and> 0 \<le> x \<and> 0 \<le> y \<and> x < int (mapSize g) \<and> y < int (mapSize g)
               \<and> x + int (width (B k)) \<le> int (mapSize g)
               \<and> y + int (height (B k)) \<le> int (mapSize g)
               \<and> (\<forall>(cx, cy) \<in> set (footprint x y (width (B k)) (height (B k))).
                      buildingType (tileOf (grid g) cx cy) = None_bt)
               \<and> writeLoop (\<lambda>cx cy. placedTile_basic k x y)
                     (footprint x y (width (B k)) (height (B k))) (grid g) = Inr G
               \<and> attemptAutoBuild_basic B TT db g
                   = Returned (g\<lparr> grid := G,
                        stats := (stats g)\<lparr> money := money (stats g) - cost (B k) \<rparr> \<rparr>))"
proof (cases "money (stats g) < 500")
  case True
  then show ?thesis by (simp add: attemptAutoBuild_basic_def Let_def)
next
  case rich: False
  define candidates where
    "candidates = filter (\<lambda>b. b \<noteq> None_bt \<and> b \<noteq> Road) (unlockedBuildings TT (unlockedTechs g))"
  show ?thesis
  proof (cases "candidates = []")
    case True
    then show ?thesis
      using rich unfolding candidates_def by (simp add: attemptAutoBuild_basic_def Let_def)
  next
    case False
    have "unitDraw (b_pick db)" using v by (simp add: validDraws_basic_def)
    then obtain k where pk: "pickAt candidates (b_pick db) = Some k"
      using pickAt_unit False by blast
    then have "k \<in> set candidates" by (rule pickAt_Some_mem)
    then have k: "k \<in> set (unlockedBuildings TT (unlockedTechs g))" "k \<noteq> None_bt"
      by (simp_all add: candidates_def)
    show ?thesis
    proof (cases "money (stats g) < cost (B k)")
      case True
      then show ?thesis
        using rich False pk unfolding candidates_def
        by (simp add: attemptAutoBuild_basic_def Let_def)
    next
      case funds: False
      have e: "attemptAutoBuild_basic B TT db g = attempts_basic B db k g [0..<20]"
        using rich False pk funds unfolding candidates_def
        by (simp add: attemptAutoBuild_basic_def Let_def)
      have dr: "\<forall>a \<in> set [0..<20]. unitDraw (b_x db a) \<and> unitDraw (b_y db a)"
        using v by (simp add: validDraws_basic_def list_all_iff)
      show ?thesis
        using attempts_basic_cases[OF d pos dr, of B k] k funds unfolding e
        by (auto simp: not_less)
    qed
  qed
qed

text \<open>
  C7. On a well-formed map and with every random draw in \<open>[0, 1)\<close>, a call of the
  auto-builder either returns the game unchanged or places one building: then the kind is
  unlocked and not \<open>None\<close>, its cost is at most the money held (so the money stays
  non-negative), the footprint lies on the map, every tile of the footprint was empty and
  (extended program) as high as the origin tile, the new grid differs from the old one
  exactly by the placed tiles of the footprint, and a click of the player with that kind
  at that origin is accepted by \<open>handleTileClick\<close> with the same result. It never throws.
  The basic program needs a map of positive size for the last point.
\<close>

theorem auto_build_safe:
  assumes "wf_grid (mapSize g) (grid g)" and "validDraws dr"
      and "wf_grid (mapSize gb) (grid gb)" and "0 < mapSize gb" and "validDraws_basic db"
  shows "(attemptAutoBuild B TT dr g = Returned g
          \<or> (\<exists>k x y G.
               let c = B k;
                   ps = footprint x y (width c) (height c);
                   s' = (stats g)\<lparr> money := money (stats g) - cost c \<rparr>
               in attemptAutoBuild B TT dr g = Returned (g\<lparr> grid := G, stats := s' \<rparr>)
                \<and> k \<in> set (unlockedBuildings TT (unlockedTechs g)) \<and> k \<noteq> None_bt
                \<and> cost c \<le> money (stats g) \<and> 0 \<le> money s'
                \<and> 0 \<le> x \<and> 0 \<le> y
                \<and> x + int (width c) \<le> int (mapSize g) \<and> y + int (height c) \<le> int (mapSize g)
                \<and> (\<forall>(cx, cy) \<in> set ps.
                       inGrid (mapSize g) cx cy
                     \<and> buildingType (tileOf (grid g) cx cy) = None_bt
                     \<and> tile_height (tileOf (grid g) cx cy) = tile_height (tileOf (grid g) x y))
                \<and> repainted (mapSize g) (grid g) G ps
                      (\<lambda>cx cy. placedTile k x y \<lfloor>d_variant dr * 4\<rfloor>)
                \<and> (gameStarted g \<and> viewMode g \<noteq> moon \<longrightarrow>
                      handleTileClick B TT (d_variant dr) now x y (g\<lparr> selectedTool := k \<rparr>)
                      = Returned (g\<lparr> selectedTool := k, grid := G, stats := s' \<rparr>))))
       \<and> (attemptAutoBuild_basic B TT db gb = Returned gb
          \<or> (\<exists>k x y G.
               let c = B k;
                   ps = footprint x y (width c) (height c);
                   s' = (stats gb)\<lparr> money := money (stats gb) - cost c \<rparr>
               in attemptAutoBuild_basic B TT db gb = Returned (gb\<lparr> grid := G, stats := s' \<rparr>)
                \<and> k \<in> set (unlockedBuildings TT (unlockedTechs gb)) \<and> k \<noteq> None_bt
                \<and> cost c \<le> money (stats gb) \<and> 0 \<le> money s'
                \<and> 0 \<le> x \<and> 0 \<le> y
                \<and> x + int (width c) \<le> int (mapSize gb) \<and> y + int (height c) \<le> int (mapSize gb)
                \<and> (\<forall>(cx, cy) \<in> set ps.
                       inGrid (mapSize gb) cx cy
                     \<and> buildingType (tileOf (grid gb) cx cy) = None_bt)
                \<and> repainted (mapSize gb) (grid gb) G ps (\<lambda>cx cy. placedTile_basic k x y)
                \<and> (gameStarted gb \<longrightarrow>
                      handleTileClick_basic B TT now x y (gb\<lparr> selectedTool := k \<rparr>)
                      = Returned (gb\<lparr> selectedTool := k, grid := G, stats := s' \<rparr>))))"
proof
  have d: "dims (mapSize g) (grid g)" using assms(1) by (rule wf_grid_dims)
  show "attemptAutoBuild B TT dr g = Returned g
          \<or> (\<exists>k x y G.
               let c = B k;
                   ps = footprint x y (width c) (height c);
                   s' = (stats g)\<lparr> money := money (stats g) - cost c \<rparr>
               in attemptAutoBuild B TT dr g = Returned (g\<lparr> grid := G, stats := s' \<rparr>)
                \<and> k \<in> set (unlockedBuildings TT (unlockedTechs g)) \<and> k \<noteq> None_bt
                \<and> cost c \<le> money (stats g) \<and> 0 \<le> money s'
                \<and> 0 \<le> x \<and> 0 \<le> y
                \<and> x + int (width c) \<le> int (mapSize g) \<and> y + int (height c) \<le> int (mapSize g)
                \<and> (\<forall>(cx, cy) \<in> set ps.
                       inGrid (mapSize g) cx cy
                     \<and> buildingType (tileOf (grid g) cx cy) = None_bt
                     \<and> tile_height (tileOf (grid g) cx cy) = tile_height (tileOf (grid g) x y))
                \<and> repainted (mapSize g) (grid g) G ps
                      (\<lambda>cx cy. placedTile k x y \<lfloor>d_variant dr * 4\<rfloor>)
                \<and> (gameStarted g \<and> viewMode g \<noteq> moon \<longrightarrow>
                      handleTileClick B TT (d_variant dr) now x y (g\<lparr> selectedTool := k \<rparr>)
                      = Returned (g\<lparr> selectedTool := k, grid := G, stats := s' \<rparr>)))"
  proof (cases "attemptAutoBuild B TT dr g = Returned g")
    case True
    then show ?thesis by simp
  next
    case False
    with autoBuild_ext[OF d assms(2), of B TT]
    obtain k x y G where k: "k \<in> set (unlockedBuildings TT (unlockedTechs g))" "k \<noteq> None_bt"
      and funds: "cost (B k) \<le> money (stats g)"
      and inb: "0 \<le> x" "0 \<le> y" "x < int (mapSize g)" "y < int (mapSize g)"
               "x + int (width (B k)) \<le> int (mapSize g)" "y + int (height (B k)) \<le> int (mapSize g)"
      and free: "\<forall>(cx, cy) \<in> set (footprint x y (width (B k)) (height (B k))).
                      buildingType (tileOf (grid g) cx cy) = None_bt
                    \<and> tile_height (tileOf (grid g) cx cy) = tile_height (tileOf (grid g) x y)"
      and G: "writeLoop (\<lambda>cx cy. placedTile k x y \<lfloor>d_variant dr * 4\<rfloor>)
                     (footprint x y (width (B k)) (height (B k))) (grid g) = Inr G"
      and res: "attemptAutoBuild B TT dr g
                   = Returned (g\<lparr> grid := G,
                        stats := (stats g)\<lparr> money := money (stats g) - cost (B k) \<rparr> \<rparr>)"
      by blast
    have fin: "\<forall>(cx, cy) \<in> set (footprint x y (width (B k)) (height (B k))). inGrid (mapSize g) cx cy"
      using inb by (auto simp: footprint_mem inGrid_def)
    have rep: "repainted (mapSize g) (grid g) G (footprint x y (width (B k)) (height (B k)))
                 (\<lambda>cx cy. placedTile k x y \<lfloor>d_variant dr * 4\<rfloor>)"
      using writeLoop_repainted[OF fin footprint_distinct d G] .
    have click: "handleTileClick B TT (d_variant dr) now x y (g\<lparr> selectedTool := k \<rparr>)
                 = Returned (g\<lparr> selectedTool := k, grid := G,
                       stats := (stats g)\<lparr> money := money (stats g) - cost (B k) \<rparr> \<rparr>)"
      if "gameStarted g" "viewMode g \<noteq> moon"
      using click_places[of "g\<lparr> selectedTool := k \<rparr>" k TT x y B "d_variant dr" G now]
        d that k inb free funds G by simp
    have all: "\<forall>(cx, cy) \<in> set (footprint x y (width (B k)) (height (B k))).
                       inGrid (mapSize g) cx cy
                     \<and> buildingType (tileOf (grid g) cx cy) = None_bt
                     \<and> tile_height (tileOf (grid g) cx cy) = tile_height (tileOf (grid g) x y)"
      using fin free by auto
    have m: "0 \<le> money ((stats g)\<lparr> money := money (stats g) - cost (B k) \<rparr>)"
      using funds by simp
    show ?thesis
      unfolding Let_def using res k funds m inb(1,2,5,6) all rep click by blast
  qed
next
  have d: "dims (mapSize gb) (grid gb)" using assms(3) by (rule wf_grid_dims)
  show "attemptAutoBuild_basic B TT db gb = Returned gb
          \<or> (\<exists>k x y G.
               let c = B k;
                   ps = footprint x y (width c) (height c);
                   s' = (stats gb)\<lparr> money := money (stats gb) - cost c \<rparr>
               in attemptAutoBuild_basic B TT db gb = Returned (gb\<lparr> grid := G, stats := s' \<rparr>)
                \<and> k \<in> set (unlockedBuildings TT (unlockedTechs gb)) \<and> k \<noteq> None_bt
                \<and> cost c \<le> money (stats gb) \<and> 0 \<le> money s'
                \<and> 0 \<le> x \<and> 0 \<le> y
                \<and> x + int (width c) \<le> int (mapSize gb) \<and> y + int (height c) \<le> int (mapSize gb)
                \<and> (\<forall>(cx, cy) \<in> set ps.
                       inGrid (mapSize gb) cx cy
                     \<and> buildingType (tileOf (grid gb) cx cy) = None_bt)
                \<and> repainted (mapSize gb) (grid gb) G ps (\<lambda>cx cy. placedTile_basic k x y)
                \<and> (gameStarted gb \<longrightarrow>
                      handleTileClick_basic B TT now x y (gb\<lparr> selectedTool := k \<rparr>)
                      = Returned (gb\<lparr> selectedTool := k, grid := G, stats := s' \<rparr>)))"
  proof (cases "attemptAutoBuild_basic B TT db gb = Returned gb")
    case True
    then show ?thesis by simp
  next
    case False
    with autoBuild_basic[OF d assms(4,5), of B TT]
    obtain k x y G where k: "k \<in> set (unlockedBuildings TT (unlockedTechs gb))" "k \<noteq> None_bt"
      and funds: "cost (B k) \<le> money (stats gb)"
      and inb: "0 \<le> x" "0 \<le> y" "x < int (mapSize gb)" "y < int (mapSize gb)"
               "x + int (width (B k)) \<le> int (mapSize gb)" "y + int (height (B k)) \<le> int (mapSize gb)"
      and free: "\<forall>(cx, cy) \<in> set (footprint x y (width (B k)) (height (B k))).
                      buildingType (tileOf (grid gb) cx cy) = None_bt"
      and G: "writeLoop (\<lambda>cx cy. placedTile_basic k x y)
                     (footprint x y (width (B k)) (height (B k))) (grid gb) = Inr G"
      and res: "attemptAutoBuild_basic B TT db gb
                   = Returned (gb\<lparr> grid := G,
                        stats := (stats gb)\<lparr> money := money (stats gb) - cost (B k) \<rparr> \<rparr>)"
      by blast
    have fin: "\<forall>(cx, cy) \<in> set (footprint x y (width (B k)) (height (B k))). inGrid (mapSize gb) cx cy"
      using inb by (auto simp: footprint_mem inGrid_def)
    have rep: "repainted (mapSize gb) (grid gb) G (footprint x y (width (B k)) (height (B k)))
                 (\<lambda>cx cy. placedTile_basic k x y)"
      using writeLoop_repainted[OF fin footprint_distinct d G] .
    have click: "handleTileClick_basic B TT now x y (gb\<lparr> selectedTool := k \<rparr>)
                 = Returned (gb\<lparr> selectedTool := k, grid := G,
                       stats := (stats gb)\<lparr> money := money (stats gb) - cost (B k) \<rparr> \<rparr>)"
      if "gameStarted gb"
      using click_places_basic[of "gb\<lparr> selectedTool := k \<rparr>" k TT x y B G now]
        d that k inb free funds G by simp
    have all: "\<forall>(cx, cy) \<in> set (footprint x y (width (B k)) (height (B k))).
                       inGrid (mapSize gb) cx cy
                     \<and> buildingType (tileOf (grid gb) cx cy) = None_bt"
      using fin free by auto
    have m: "0 \<le> money ((stats gb)\<lparr> money := money (stats gb) - cost (B k) \<rparr>)"
      using funds by simp
    show ?thesis
      unfolding Let_def using res k funds m inb(1,2,5,6) all rep click by blast
  qed
qed

lemma upt2: "[0..<2] = [0, 1]"
  by (simp add: upt_rec)

lemma wf_flatGrid2: "wf_grid 2 flatGrid2"
  by (simp add: wf_grid_def flatGrid2_def emptyTile_def upt2)

lemma floor_neg_one: "\<lfloor>- 1 :: real\<rfloor> = - 1"
  using floor_of_int[of "- 1", where ?'a = real] by simp

lemma validDraws_sample: "validDraws sampleDraws"
  by (simp add: validDraws_def sampleDraws_def unitDraw_def list_all_iff)

lemma validDraws_basic_sample: "validDraws_basic sampleDraws_basic"
  by (simp add: validDraws_basic_def sampleDraws_basic_def unitDraw_def list_all_iff)

lemma unlocked_sample:
  "unlockedBuildings sampleTechs [''basics''] = [None_bt, Road, Residential, Commercial]"
  "unlockedBuildings sampleTechs [''basics'', ''solar'']
     = [None_bt, Road, Residential, Commercial, SolarPanel]"
  by (simp_all add: unlockedBuildings_def sampleTechs_def findTech_def addAll_def)

lemma upt20: "[0..<20] = 0 # [1..<20]"
  by (simp add: upt_rec)

lemma footprint_1x1: "footprint x y (Suc 0) (Suc 0) = [(x, y)]"
  by (simp add: footprint_def)

lemma autoBuild_sample:
  "attemptAutoBuild sampleCatalog sampleTechs sampleDraws solarGame
   = Returned (solarGame\<lparr> grid := [[emptyTile 0 0, emptyTile 1 0],
                                    [placedTile SolarPanel 0 1 2 (emptyTile 0 1), emptyTile 1 1]],
                 stats := initialStats\<lparr> money := 1800 \<rparr> \<rparr>)"
  apply (simp add: attemptAutoBuild_def solarGame_def sampleGame_def unlocked_sample Let_def
       chooseTarget_def initialStats_def flatGrid2_def emptyTile_def cfg_def sampleDraws_def upt20
       footprint_1x1 readTile_def readCell_def updTile_def floor_neg_one)
  done

lemma autoBuild_basic_sample:
  "attemptAutoBuild_basic sampleCatalog sampleTechs sampleDraws_basic sampleGame_basic
   = Returned (sampleGame_basic\<lparr>
        grid := [[placedTile_basic Commercial 0 0 (emptyTile 0 0), emptyTile 1 0],
                 [emptyTile 0 1, emptyTile 1 1]],
        stats := (stats sampleGame_basic)\<lparr> money := 1700 \<rparr> \<rparr>)"
  by (simp add: attemptAutoBuild_basic_def sampleGame_basic_def unlocked_sample Let_def
       flatGrid2_def emptyTile_def cfg_def sampleDraws_basic_def upt20 pickAt_def
       footprint_1x1 readTile_def readCell_def updTile_def)

theorem auto_build_safe_witness:
  "wf_grid (mapSize solarGame) (grid solarGame) \<and> validDraws sampleDraws
   \<and> wf_grid (mapSize sampleGame_basic) (grid sampleGame_basic) \<and> 0 < mapSize sampleGame_basic
   \<and> validDraws_basic sampleDraws_basic
   \<and> attemptAutoBuild sampleCatalog sampleTechs sampleDraws solarGame
       = Returned (solarGame\<lparr> grid := [[emptyTile 0 0, emptyTile 1 0],
                                    [placedTile SolarPanel 0 1 2 (emptyTile 0 1), emptyTile 1 1]],
                 stats := initialStats\<lparr> money := 1800 \<rparr> \<rparr>)
   \<and> attemptAutoBuild_basic sampleCatalog sampleTechs sampleDraws_basic sampleGame_basic
       = Returned (sampleGame_basic\<lparr>
            grid := [[placedTile_basic Commercial 0 0 (emptyTile 0 0), emptyTile 1 0],
                     [emptyTile 0 1, emptyTile 1 1]],
            stats := (stats sampleGame_basic)\<lparr> money := 1700 \<rparr> \<rparr>)"
proof -
  have g: "mapSize solarGame = 2" "grid solarGame = flatGrid2"
    "mapSize sampleGame_basic = 2" "grid sampleGame_basic = flatGrid2"
    by (simp_all add: solarGame_def sampleGame_def sampleGame_basic_def)
  have h: "wf_grid (mapSize solarGame) (grid solarGame)"
    "wf_grid (mapSize sampleGame_basic) (grid sampleGame_basic)" "0 < mapSize sampleGame_basic"
    by (simp_all add: g wf_flatGrid2)
  from auto_build_safe[OF h(1) validDraws_sample h(2) h(3) validDraws_basic_sample,
         of sampleCatalog sampleTechs "''0''"]
  show ?thesis
    using h validDraws_sample validDraws_basic_sample autoBuild_sample autoBuild_basic_sample
    by simp
qed

section \<open>Goals\<close>

lemma isMet_metBy: "isMet goal counts s = metBy goal counts s"
  by (cases "targetType goal"; cases "goalBuildingType goal")
     (simp_all add: isMet_def metBy_def Let_def)

lemma checkGoal_active:
  assumes "ai" "\<not> completed goal"
  shows "checkGoal ai (Some goal) counts s = Some (goal\<lparr> completed := metBy goal counts s \<rparr>)"
  using assms by (simp add: checkGoal_def isMet_metBy)

lemma alert_frame:
  "stats (alert c now txt g) = stats g" "currentGoal (alert c now txt g) = currentGoal g"
  "grid (alert c now txt g) = grid g"
  by (simp_all add: alert_def addNewsItem_def)

lemma tick_Returned:
  assumes "gameStarted g" "tick B TT R d now g = Returned g'"
  shows "\<exists>g1. (if autoGrowth g then attemptAutoBuild B TT (t_auto d) g else Returned g) = Returned g1
              \<and> stats g' = tickStats R (powerPenalty (aggregate B (grid g))) (stats g1)
              \<and> currentGoal g' = checkGoal (aiEnabled g) (currentGoal g)
                    (buildingCounts (aggregate B (grid g))) (stats g')"
proof (cases "if autoGrowth g then attemptAutoBuild B TT (t_auto d) g else Returned g")
  case (Returned g1)
  then have "stats g' = tickStats R (powerPenalty (aggregate B (grid g))) (stats g1)
       \<and> currentGoal g' = checkGoal (aiEnabled g) (currentGoal g)
                    (buildingCounts (powerPenalty (aggregate B (grid g)))) (stats g')"
    using assms unfolding tick_def Let_def
    by (auto simp: alert_frame)
  then show ?thesis using Returned by (simp add: powerPenalty_counts)
next
  case (Thrown e g1)
  then have False using assms unfolding tick_def Let_def by auto
  then show ?thesis ..
qed

lemma claim_credit:
  assumes "currentGoal h = Some gl" "completed gl"
  shows "money (stats (handleClaimReward str now h)) = money (stats h) + reward gl
         \<and> currentGoal (handleClaimReward str now h) = None"
  using assms by (simp add: handleClaimReward_def addNewsItem_def)

lemma claim_noop:
  assumes "currentGoal h = None \<or> (\<exists>gl. currentGoal h = Some gl \<and> \<not> completed gl)"
  shows "handleClaimReward str now h = h"
  using assms by (auto simp: handleClaimReward_def)

lemma claim_twice:
  "stats (handleClaimReward str now2 (handleClaimReward str now h)) = stats (handleClaimReward str now h)"
proof (cases "\<exists>gl. currentGoal h = Some gl \<and> completed gl")
  case True
  then obtain gl where "currentGoal h = Some gl" "completed gl" by blast
  then have "currentGoal (handleClaimReward str now h) = None"
    using claim_credit by blast
  then show ?thesis by (simp add: claim_noop)
next
  case False
  then have "currentGoal h = None \<or> (\<exists>gl. currentGoal h = Some gl \<and> \<not> completed gl)"
    by (cases "currentGoal h") auto
  then show ?thesis by (simp add: claim_noop)
qed

text \<open>
  C6. In a started game with the adviser enabled and a goal that is present and not
  completed (an active goal), a tick that returns leaves the goal with \<open>completed\<close> set
  exactly when the stat of its target type in the new stats, or the count of its building
  kind in this tick's aggregation, is at least the target value. The money after the tick
  is the money left by the auto-builder plus the income: nothing is credited for the goal.
  \<open>handleClaimReward\<close> on a completed goal adds the reward to the money and clears the
  goal; on a goal not completed, or with no goal, it changes nothing; so a second claim
  credits nothing more.
\<close>

theorem goal_completion_and_claim:
  assumes "gameStarted g" and "aiEnabled g" and "currentGoal g = Some goal"
      and "\<not> completed goal" and "tick B TT R d now g = Returned g'"
  shows "currentGoal g'
           = Some (goal\<lparr> completed := metBy goal (buildingCounts (aggregate B (grid g))) (stats g') \<rparr>)
       \<and> money (stats g')
           = money (stats (stateOf (if autoGrowth g then attemptAutoBuild B TT (t_auto d) g
                                    else Returned g)))
             + dailyIncome (powerPenalty (aggregate B (grid g)))
       \<and> (completed gl \<longrightarrow>
            money (stats (handleClaimReward str now2 (h\<lparr> currentGoal := Some gl \<rparr>)))
              = money (stats h) + reward gl
          \<and> currentGoal (handleClaimReward str now2 (h\<lparr> currentGoal := Some gl \<rparr>)) = None)
       \<and> (\<not> completed gl \<longrightarrow>
            handleClaimReward str now2 (h\<lparr> currentGoal := Some gl \<rparr>) = h\<lparr> currentGoal := Some gl \<rparr>)
       \<and> handleClaimReward str now2 (h\<lparr> currentGoal := None \<rparr>) = h\<lparr> currentGoal := None \<rparr>
       \<and> stats (handleClaimReward str now3 (handleClaimReward str now2 h))
           = stats (handleClaimReward str now2 h)"
proof -
  obtain g1 where g1: "(if autoGrowth g then attemptAutoBuild B TT (t_auto d) g else Returned g) = Returned g1"
     "stats g' = tickStats R (powerPenalty (aggregate B (grid g))) (stats g1)"
     "currentGoal g' = checkGoal (aiEnabled g) (currentGoal g)
                    (buildingCounts (aggregate B (grid g))) (stats g')"
    using tick_Returned[OF assms(1,5)] by blast
  have 1: "currentGoal g'
           = Some (goal\<lparr> completed := metBy goal (buildingCounts (aggregate B (grid g))) (stats g') \<rparr>)"
    using g1(3) assms(2,3,4) by (simp add: checkGoal_active)
  have 2: "money (stats g')
           = money (stats (stateOf (if autoGrowth g then attemptAutoBuild B TT (t_auto d) g
                                    else Returned g)))
             + dailyIncome (powerPenalty (aggregate B (grid g)))"
    unfolding g1(1) g1(2) by (simp add: stateOf_def tickStats_def)
  have 3: "completed gl \<longrightarrow>
            money (stats (handleClaimReward str now2 (h\<lparr> currentGoal := Some gl \<rparr>)))
              = money (stats h) + reward gl
          \<and> currentGoal (handleClaimReward str now2 (h\<lparr> currentGoal := Some gl \<rparr>)) = None"
    using claim_credit[of "h\<lparr> currentGoal := Some gl \<rparr>" gl str now2] by simp
  have 4: "\<not> completed gl \<longrightarrow>
            handleClaimReward str now2 (h\<lparr> currentGoal := Some gl \<rparr>) = h\<lparr> currentGoal := Some gl \<rparr>"
    using claim_noop[of "h\<lparr> currentGoal := Some gl \<rparr>" str now2] by simp
  have 5: "handleClaimReward str now2 (h\<lparr> currentGoal := None \<rparr>) = h\<lparr> currentGoal := None \<rparr>"
    using claim_noop[of "h\<lparr> currentGoal := None \<rparr>" str now2] by simp
  show ?thesis using 1 2 3 4 5 claim_twice by blast
qed

lemma tick_town:
  "tick sampleCatalog sampleTechs sampleRates sampleTickDraws ''0'' townGame = Returned townGameAfter"
  by (simp add: tick_def townGame_def townGameAfter_def sampleGame_def Let_def agg_town
        agg_town_growth isLowPower_def powerRatio_5_10 binary64_zero binary64_15_2
        powerPenalty_def tickStats_def
        initialStats_def sampleRates_def newPopOf_def newO2Of_def newCO2Of_def newFoodOf_def
        starvationOf_def deathToll_def maxPopOf_def alert_def sampleTickDraws_def
        checkGoal_def isMet_def sampleGoal_def)

theorem goal_completion_and_claim_witness:
  "gameStarted townGame \<and> aiEnabled townGame \<and> currentGoal townGame = Some sampleGoal
   \<and> \<not> completed sampleGoal
   \<and> tick sampleCatalog sampleTechs sampleRates sampleTickDraws ''0'' townGame
       = Returned townGameAfter
   \<and> currentGoal townGameAfter = Some (sampleGoal\<lparr> completed := True \<rparr>)
   \<and> money (stats townGameAfter) = 2007
   \<and> money (stats (handleClaimReward (\<lambda>r. ''200'') ''1'' townGameAfter)) = 2207
   \<and> currentGoal (handleClaimReward (\<lambda>r. ''200'') ''1'' townGameAfter) = None"
proof -
  have h: "gameStarted townGame" "aiEnabled townGame" "currentGoal townGame = Some sampleGoal"
    "\<not> completed sampleGoal"
    by (simp_all add: townGame_def sampleGame_def sampleGoal_def)
  have a: "currentGoal townGameAfter = Some (sampleGoal\<lparr> completed := True \<rparr>)"
    "money (stats townGameAfter) = 2007"
    by (simp_all add: townGameAfter_def)
  have c: "money (stats (handleClaimReward (\<lambda>r. ''200'') ''1'' townGameAfter)) = 2207"
    "currentGoal (handleClaimReward (\<lambda>r. ''200'') ''1'' townGameAfter) = None"
    by (simp_all add: handleClaimReward_def townGameAfter_def sampleGoal_def addNewsItem_def)
  from goal_completion_and_claim[OF h tick_town, of "sampleGoal\<lparr> completed := True \<rparr>"
          "\<lambda>r. ''200''" "''1''" townGameAfter "''2''"]
  show ?thesis
    using h tick_town a c by blast
qed

section \<open>Research\<close>

lemma set_addAll: "set (addAll bs new) = set bs \<union> set new"
  unfolding addAll_def
  by (induction new arbitrary: bs) auto

lemma set_unlock_fold:
  "set (foldl (\<lambda>buildings techId.
              case findTech TT techId of
                None \<Rightarrow> buildings
              | Some tech \<Rightarrow> addAll buildings (unlocks tech)) acc techs)
   = set acc \<union> (\<Union>i \<in> set techs. unlocksOf TT i)"
proof (induction techs arbitrary: acc)
  case Nil
  then show ?case by simp
next
  case (Cons t techs)
  show ?case
    by (cases "findTech TT t") (auto simp: Cons unlocksOf_def set_addAll)
qed

lemma set_unlockedBuildings:
  "set (unlockedBuildings TT techs) = {None_bt} \<union> (\<Union>i \<in> set techs. unlocksOf TT i)"
  by (simp add: unlockedBuildings_def set_unlock_fold)

text \<open>
  C9, as stated, fails: \<open>handleUnlockTech\<close> has no test for an id that is already unlocked.
  With science 120 and the node \<open>solar\<close> (cost 50) already unlocked, a second call debits 50
  again and appends the id again.
\<close>

theorem unlock_again_counterexample:
  "''solar'' \<in> set (unlockedTechs solarGame)
   \<and> science (stats (handleUnlockTech sampleTechs ''0'' ''solar''
                        (solarGame\<lparr> stats := initialStats\<lparr> science := 120 \<rparr> \<rparr>))) = 70
   \<and> unlockedTechs (handleUnlockTech sampleTechs ''0'' ''solar''
                        (solarGame\<lparr> stats := initialStats\<lparr> science := 120 \<rparr> \<rparr>))
       = [''basics'', ''solar'', ''solar'']"
  by (simp add: handleUnlockTech_def solarGame_def sampleGame_def sampleTechs_def findTech_def
        addNewsItem_def initialStats_def)

text \<open>
  C9, amended. For an id of the tree that is already unlocked, \<open>handleUnlockTech\<close> is not a
  no-op. When the science covers the cost, the resulting state is the prior one with the
  cost debited again, the id appended again to the unlocked list, and the positive notice
  \<open>Research Completed: name\<close> appended to the last 12 news items; the set of unlocked
  building kinds derived from the list is the same as before. When the science does not
  cover the cost, the resulting state is the prior one with only the negative notice
  \<open>Insufficient Science for name\<close> appended to the last 12 news items. The research panel
  renders no Research button for such a node, whatever the science.
\<close>

theorem unlock_again:
  assumes "techId \<in> set (unlockedTechs g)" and "findTech TT techId = Some tech"
  shows "(tech_cost tech \<le> science (stats g) \<longrightarrow>
            handleUnlockTech TT now techId g
              = g\<lparr> stats := (stats g)\<lparr> science := science (stats g) - tech_cost tech \<rparr>,
                   unlockedTechs := unlockedTechs g @ [techId],
                   newsFeed := drop (length (newsFeed g) - 12) (newsFeed g)
                     @ [\<lparr> news_id = now, news_text = ''Research Completed: '' @ tech_name tech,
                          news_type = positive \<rparr>] \<rparr>
          \<and> science (stats (handleUnlockTech TT now techId g)) = science (stats g) - tech_cost tech
          \<and> unlockedTechs (handleUnlockTech TT now techId g) = unlockedTechs g @ [techId]
          \<and> set (unlockedBuildings TT (unlockedTechs (handleUnlockTech TT now techId g)))
              = set (unlockedBuildings TT (unlockedTechs g)))
       \<and> (science (stats g) < tech_cost tech \<longrightarrow>
            handleUnlockTech TT now techId g
              = g\<lparr> newsFeed := drop (length (newsFeed g) - 12) (newsFeed g)
                     @ [\<lparr> news_id = now, news_text = ''Insufficient Science for '' @ tech_name tech,
                          news_type = negative \<rparr>] \<rparr>
          \<and> stats (handleUnlockTech TT now techId g) = stats g
          \<and> unlockedTechs (handleUnlockTech TT now techId g) = unlockedTechs g)
       \<and> tech_id tech = techId
       \<and> researchButton (unlockedTechs g) sci tech = None
       \<and> (\<forall>i < length TT. tech_id (TT ! i) \<in> set (unlockedTechs g)
              \<longrightarrow> TechModal TT (unlockedTechs g) sci ! i = None)"
proof -
  have i: "tech_id tech = techId"
    using assms(2) by (auto simp: findTech_def find_Some_iff)
  have b: "set (unlockedBuildings TT (unlockedTechs g @ [techId]))
           = set (unlockedBuildings TT (unlockedTechs g))"
    using assms(1) by (auto simp: set_unlockedBuildings)
  have p: "researchButton (unlockedTechs g) sci tech = None"
    using assms(1) i by (simp add: researchButton_def isUnlocked_def)
  have m: "\<forall>i < length TT. tech_id (TT ! i) \<in> set (unlockedTechs g)
              \<longrightarrow> TechModal TT (unlockedTechs g) sci ! i = None"
    by (simp add: TechModal_def researchButton_def isUnlocked_def)
  have h: "(tech_cost tech \<le> science (stats g) \<longrightarrow>
            handleUnlockTech TT now techId g
              = g\<lparr> stats := (stats g)\<lparr> science := science (stats g) - tech_cost tech \<rparr>,
                   unlockedTechs := unlockedTechs g @ [techId],
                   newsFeed := drop (length (newsFeed g) - 12) (newsFeed g)
                     @ [\<lparr> news_id = now, news_text = ''Research Completed: '' @ tech_name tech,
                          news_type = positive \<rparr>] \<rparr>)
       \<and> (science (stats g) < tech_cost tech \<longrightarrow>
            handleUnlockTech TT now techId g
              = g\<lparr> newsFeed := drop (length (newsFeed g) - 12) (newsFeed g)
                     @ [\<lparr> news_id = now, news_text = ''Insufficient Science for '' @ tech_name tech,
                          news_type = negative \<rparr>] \<rparr>)"
    using assms(2) by (simp add: handleUnlockTech_def addNewsItem_def)
  show ?thesis
    using h b i p m by simp
qed

theorem unlock_again_witness:
  "''solar'' \<in> set (unlockedTechs solarGame)
   \<and> findTech sampleTechs ''solar'' = Some (sampleTechs ! 1)
   \<and> science (stats solarGame) < tech_cost (sampleTechs ! 1)
   \<and> handleUnlockTech sampleTechs ''0'' ''solar'' solarGame
       = solarGame\<lparr> newsFeed := [\<lparr> news_id = ''0'',
                                    news_text = ''Insufficient Science for Photovoltaics'',
                                    news_type = negative \<rparr>] \<rparr>
   \<and> stats (handleUnlockTech sampleTechs ''0'' ''solar'' solarGame) = stats solarGame
   \<and> unlockedTechs (handleUnlockTech sampleTechs ''0'' ''solar'' solarGame) = unlockedTechs solarGame
   \<and> researchButton (unlockedTechs solarGame) 120 (sampleTechs ! 1) = None
   \<and> TechModal sampleTechs (unlockedTechs solarGame) 120 = [None, None]
   \<and> TechModal sampleTechs (unlockedTechs sampleGame) 120
       = [None, Some \<lparr> button_onUnlock = ''solar'', button_disabled = False \<rparr>]"
proof -
  have h: "''solar'' \<in> set (unlockedTechs solarGame)"
    "findTech sampleTechs ''solar'' = Some (sampleTechs ! 1)"
    by (simp_all add: solarGame_def sampleGame_def sampleTechs_def findTech_def)
  have c: "science (stats solarGame) < tech_cost (sampleTechs ! 1)"
    by (simp add: solarGame_def sampleGame_def sampleTechs_def initialStats_def)
  have n: "drop (length (newsFeed solarGame) - 12) (newsFeed solarGame) = []"
    "tech_name (sampleTechs ! 1) = ''Photovoltaics''"
    by (simp_all add: solarGame_def sampleGame_def sampleTechs_def)
  have t: "TechModal sampleTechs (unlockedTechs solarGame) 120 = [None, None]"
    "TechModal sampleTechs (unlockedTechs sampleGame) 120
       = [None, Some \<lparr> button_onUnlock = ''solar'', button_disabled = False \<rparr>]"
    by (simp_all add: TechModal_def researchButton_def isUnlocked_def isLocked_def canUnlock_def
          solarGame_def sampleGame_def sampleTechs_def)
  from unlock_again[OF h, of "''0''" 120] show ?thesis using h c n t by simp
qed

section \<open>Atmosphere bounds over runs\<close>

lemma tickStats_airOK: "airOK (tickStats R a prev)"
  by (simp add: airOK_def tickStats_def newO2Of_def newCO2Of_def Let_def)

lemma attempts_air: "sameAir (stats g) (stats (stateOf (attempts B d k sx sy g as)))"
proof (induction as)
  case Nil
  then show ?case by (simp add: stateOf_def sameAir_def)
next
  case (Cons a as)
  then show ?case
    by (auto simp: Let_def stateOf_def sameAir_def split: sum.splits)
qed

lemma attemptAutoBuild_air: "sameAir (stats g) (stats (stateOf (attemptAutoBuild B TT d g)))"
proof -
  have r: "sameAir (stats g) (stats (stateOf (Returned g)))"
          "sameAir (stats g) (stats (stateOf (Thrown e g)))" for e
    by (simp_all add: stateOf_def sameAir_def)
  show ?thesis
    unfolding attemptAutoBuild_def Let_def
    using r attempts_air by (auto split: option.splits)
qed

lemma click_air: "sameAir (stats g) (stats (stateOf (handleTileClick B TT r now x y g)))"
  unfolding handleTileClick_def Let_def
  by (auto simp: stateOf_def sameAir_def addNewsItem_def split: sum.splits option.splits)

lemma tick_air:
  assumes "airOK (stats g)"
  shows "airOK (stats (stateOf (tick B TT R d now g)))"
proof (cases "gameStarted g")
  case False
  then show ?thesis using assms by (simp add: tick_def stateOf_def)
next
  case True
  show ?thesis
  proof (cases "if autoGrowth g then attemptAutoBuild B TT (t_auto d) g else Returned g")
    case (Returned g1)
    then have "\<exists>a prev. stats (stateOf (tick B TT R d now g)) = tickStats R a prev"
      using True unfolding tick_def Let_def by (auto simp: stateOf_def alert_frame)
    then show ?thesis using tickStats_airOK by auto
  next
    case (Thrown e g1)
    then have s: "stateOf (tick B TT R d now g) = g1"
      using True unfolding tick_def Let_def by (simp add: stateOf_def)
    have "sameAir (stats g) (stats g1)"
      using attemptAutoBuild_air[of g B TT "t_auto d"] Thrown
      by (auto simp: stateOf_def sameAir_def split: if_splits)
    then show ?thesis using assms s by (simp add: sameAir_def airOK_def)
  qed
qed

lemma step_air:
  assumes "airOK (stats g)"
  shows "airOK (stats (step B TT R str g ev))"
proof (cases ev)
  case (Tick d now)
  then show ?thesis using tick_air[OF assms] by simp
next
  case (TileClick r now x y)
  then show ?thesis
    using click_air[of g B TT r now x y] assms by (simp add: sameAir_def airOK_def)
next
  case (UnlockTech now techId)
  then show ?thesis
    using assms
    by (auto simp: handleUnlockTech_def addNewsItem_def airOK_def split: option.splits)
next
  case (ClaimReward now)
  then show ?thesis
    using assms
    by (auto simp: handleClaimReward_def addNewsItem_def airOK_def split: option.splits)
qed (use assms in simp_all)

lemma run_air:
  assumes "airOK (stats g)"
  shows "airOK (stats (run B TT R str g evs))"
  using assms unfolding run_def
proof (induction evs arbitrary: g)
  case Nil
  then show ?case by simp
next
  case (Cons ev evs)
  have "airOK (stats (step B TT R str g ev))" using Cons.prems by (rule step_air)
  then show ?case using Cons.IH by simp
qed

text \<open>
  C5. From a game with the initial stats (oxygen 100, CO2 400), after every sequence of
  events of the extended game (ticks, with or without the auto-builder, interleaved with
  clicks, research, claims and the other actions, on any map), the oxygen is within
  \<open>[0, 100]\<close> and the CO2 is at least 300.
\<close>

theorem air_invariant:
  "(let s = stats (run B TT R str (g\<lparr> stats := initialStats \<rparr>) evs)
    in 0 \<le> oxygen s \<and> oxygen s \<le> 100 \<and> 300 \<le> co2 s)"
proof -
  have "airOK (stats (g\<lparr> stats := initialStats \<rparr>))"
    by (simp add: airOK_def initialStats_def)
  then have "airOK (stats (run B TT R str (g\<lparr> stats := initialStats \<rparr>) evs))"
    by (rule run_air)
  then show ?thesis by (simp add: airOK_def)
qed

theorem air_invariant_witness:
  "0 \<le> oxygen (stats (run sampleCatalog sampleTechs sampleRates (\<lambda>r. ''200'') townGame
                          [Tick sampleTickDraws ''0'', ClaimReward ''1'', Tick sampleTickDraws ''2'']))
   \<and> oxygen (stats (run sampleCatalog sampleTechs sampleRates (\<lambda>r. ''200'') townGame
                          [Tick sampleTickDraws ''0'', ClaimReward ''1'', Tick sampleTickDraws ''2''])) \<le> 100
   \<and> 300 \<le> co2 (stats (run sampleCatalog sampleTechs sampleRates (\<lambda>r. ''200'') townGame
                          [Tick sampleTickDraws ''0'', ClaimReward ''1'', Tick sampleTickDraws ''2'']))"
proof -
  have "townGame\<lparr> stats := initialStats \<rparr> = townGame"
    by (simp add: townGame_def sampleGame_def)
  then show ?thesis
    using air_invariant[of sampleCatalog sampleTechs sampleRates "\<lambda>r. ''200''" townGame
            "[Tick sampleTickDraws ''0'', ClaimReward ''1'', Tick sampleTickDraws ''2'']"]
    by (simp add: Let_def)
qed

section \<open>Demolition\<close>

lemma clearLoop_ok:
  assumes d: "dims n g" and r: "0 \<le> rx" "0 \<le> ry"
  shows "\<exists>G. clearLoop n f (footprint rx ry w h) g = Inr G \<and> dims n G
           \<and> (\<forall>ax ay. inGrid n ax ay \<longrightarrow>
                 tileOf G ax ay = (if covered rx ry w h ax ay then f ax ay (tileOf g ax ay)
                                   else tileOf g ax ay))"
proof -
  define ps where "ps = filter (\<lambda>(cx, cy). cy < int n \<and> cx < int n) (footprint rx ry w h)"
  have fin: "\<forall>(cx, cy) \<in> set ps. inGrid n cx cy"
    using r by (auto simp: ps_def footprint_mem inGrid_def)
  have dis: "distinct ps" by (simp add: ps_def footprint_distinct)
  obtain G where G: "writeLoop f ps g = Inr G" "dims n G"
     "\<forall>ax ay. inGrid n ax ay \<longrightarrow>
         tileOf G ax ay = (if (ax, ay) \<in> set ps then f ax ay (tileOf g ax ay) else tileOf g ax ay)"
    using writeLoop_ok[OF fin dis d, of f] by blast
  have m: "(ax, ay) \<in> set ps \<longleftrightarrow> covered rx ry w h ax ay" if "inGrid n ax ay" for ax ay
    using that by (auto simp: ps_def footprint_mem covered_def inGrid_def)
  have "clearLoop n f (footprint rx ry w h) g = Inr G"
    using G(1) by (simp add: clearLoop_filter ps_def)
  moreover have "\<forall>ax ay. inGrid n ax ay \<longrightarrow>
                 tileOf G ax ay = (if covered rx ry w h ax ay then f ax ay (tileOf g ax ay)
                                   else tileOf g ax ay)"
    using G(3) m by simp
  ultimately show ?thesis using G(2) by blast
qed

lemma demolish_ext:
  assumes wf: "wf_grid (mapSize g) (grid g)"
      and st: "gameStarted g" "viewMode g \<noteq> moon" "selectedTool g = None_bt"
      and click: "inGrid (mapSize g) x y"
      and occ: "buildingType (tileOf (grid g) x y) \<noteq> None_bt"
      and funds: "50 \<le> money (stats g)"
      and root: "inGrid (mapSize g) (rootXOf (tileOf (grid g) x y)) (rootYOf (tileOf (grid g) x y))"
  shows "\<exists>G. handleTileClick B TT r now x y g
              = Returned (g\<lparr> grid := G, stats := (stats g)\<lparr> money := money (stats g) - 50 \<rparr> \<rparr>)
           \<and> dims (mapSize g) G
           \<and> (\<forall>ax ay. inGrid (mapSize g) ax ay \<longrightarrow>
                 tileOf G ax ay =
                   (let ct = tileOf (grid g) x y;
                        rootTile = tileOf (grid g) (rootXOf ct) (rootYOf ct);
                        c = B (buildingType rootTile)
                    in if covered (rootXOf ct) (rootYOf ct) (width c) (height c) ax ay
                       then (tileOf (grid g) ax ay)\<lparr> buildingType := None_bt, ownerX := None,
                              ownerY := None, variant := None \<rparr>
                       else tileOf (grid g) ax ay))"
proof -
  define ct where "ct = tileOf (grid g) x y"
  define rx where "rx = rootXOf ct"
  define ry where "ry = rootYOf ct"
  define c where "c = B (buildingType (tileOf (grid g) rx ry))"
  have d: "dims (mapSize g) (grid g)" using wf by (rule wf_grid_dims)
  have cell: "readCell (grid g) x y = Inr (Some ct)"
    using d click by (simp add: readCell_ok ct_def)
  have rt: "readTile (grid g) rx ry = Inr (tileOf (grid g) rx ry)"
    using d root by (simp add: readTile_ok rx_def ry_def ct_def)
  have r0: "0 \<le> rx" "0 \<le> ry" using root by (simp_all add: inGrid_def rx_def ry_def ct_def)
  obtain G where G: "clearLoop (mapSize g) (\<lambda>cx cy. clearedTile) (footprint rx ry (width c) (height c)) (grid g) = Inr G"
      "dims (mapSize g) G"
      "\<forall>ax ay. inGrid (mapSize g) ax ay \<longrightarrow>
                 tileOf G ax ay = (if covered rx ry (width c) (height c) ax ay
                                   then (tileOf (grid g) ax ay)\<lparr> buildingType := None_bt, ownerX := None,
                              ownerY := None, variant := None \<rparr>
                                   else tileOf (grid g) ax ay)"
    using clearLoop_ok[OF d r0, of "\<lambda>cx cy. clearedTile" "width c" "height c"]
    unfolding clearedTile_def by blast
  have xy: "\<not> (x < 0 \<or> int (mapSize g) \<le> x \<or> y < 0 \<or> int (mapSize g) \<le> y)"
    using click by (auto simp: inGrid_def)
  have "handleTileClick B TT r now x y g
        = Returned (g\<lparr> grid := G, stats := (stats g)\<lparr> money := money (stats g) - 50 \<rparr> \<rparr>)"
    unfolding handleTileClick_def
    using st xy cell occ[folded ct_def] funds rt[unfolded rx_def ry_def rootXOf_def rootYOf_def]
      G(1)[unfolded c_def rx_def ry_def rootXOf_def rootYOf_def]
    by (simp add: Let_def)
  then show ?thesis
    using G(2,3) unfolding Let_def c_def rx_def ry_def ct_def by blast
qed

lemma demolish_basic:
  assumes wf: "wf_grid (mapSize g) (grid g)"
      and st: "gameStarted g" "selectedTool g = None_bt"
      and click: "inGrid (mapSize g) x y"
      and occ: "buildingType (tileOf (grid g) x y) \<noteq> None_bt"
      and funds: "50 \<le> money (stats g)"
      and root: "inGrid (mapSize g) (rootXOf (tileOf (grid g) x y)) (rootYOf (tileOf (grid g) x y))"
  shows "\<exists>G. handleTileClick_basic B TT now x y g
              = Returned (g\<lparr> grid := G, stats := (stats g)\<lparr> money := money (stats g) - 50 \<rparr> \<rparr>)
           \<and> dims (mapSize g) G
           \<and> (\<forall>ax ay. inGrid (mapSize g) ax ay \<longrightarrow>
                 tileOf G ax ay =
                   (let ct = tileOf (grid g) x y;
                        rootTile = tileOf (grid g) (rootXOf ct) (rootYOf ct);
                        c = B (buildingType rootTile)
                    in if covered (rootXOf ct) (rootYOf ct) (width c) (height c) ax ay
                       then \<lparr> tile_x = ax, tile_y = ay, buildingType = None_bt, ownerX = None,
                              ownerY = None, variant = None, tile_height = None \<rparr>
                       else tileOf (grid g) ax ay))"
proof -
  define ct where "ct = tileOf (grid g) x y"
  define rx where "rx = rootXOf ct"
  define ry where "ry = rootYOf ct"
  define c where "c = B (buildingType (tileOf (grid g) rx ry))"
  have d: "dims (mapSize g) (grid g)" using wf by (rule wf_grid_dims)
  have cell: "readCell (grid g) x y = Inr (Some ct)"
    using d click by (simp add: readCell_ok ct_def)
  have rt: "readTile (grid g) rx ry = Inr (tileOf (grid g) rx ry)"
    using d root by (simp add: readTile_ok rx_def ry_def ct_def)
  have r0: "0 \<le> rx" "0 \<le> ry" using root by (simp_all add: inGrid_def rx_def ry_def ct_def)
  obtain G where G: "clearLoop (mapSize g) (\<lambda>cx cy t. clearedTile_basic cx cy)
                        (footprint rx ry (width c) (height c)) (grid g) = Inr G"
      "dims (mapSize g) G"
      "\<forall>ax ay. inGrid (mapSize g) ax ay \<longrightarrow>
                 tileOf G ax ay = (if covered rx ry (width c) (height c) ax ay
                                   then \<lparr> tile_x = ax, tile_y = ay, buildingType = None_bt, ownerX = None,
                              ownerY = None, variant = None, tile_height = None \<rparr>
                                   else tileOf (grid g) ax ay)"
    using clearLoop_ok[OF d r0, of "\<lambda>cx cy t. clearedTile_basic cx cy" "width c" "height c"]
    unfolding clearedTile_basic_def by blast
  have xy: "\<not> (x < 0 \<or> int (mapSize g) \<le> x \<or> y < 0 \<or> int (mapSize g) \<le> y)"
    using click by (auto simp: inGrid_def)
  have "handleTileClick_basic B TT now x y g
        = Returned (g\<lparr> grid := G, stats := (stats g)\<lparr> money := money (stats g) - 50 \<rparr> \<rparr>)"
    unfolding handleTileClick_basic_def
    using st xy cell occ[folded ct_def] funds rt[unfolded rx_def ry_def rootXOf_def rootYOf_def]
      G(1)[unfolded c_def rx_def ry_def rootXOf_def rootYOf_def]
    by (simp add: Let_def)
  then show ?thesis
    using G(2,3) unfolding Let_def c_def rx_def ry_def ct_def by blast
qed

text \<open>
  C10. The clear loop of a demolition is the write loop over the covered coordinates that
  pass the test \<open>rootY+j < mapSize && rootX+i < mapSize\<close>. On a well-formed map, a
  demolition that is paid for, of an occupied tile whose root lies on the map, returns
  without throwing, debits 50, and yields a map of the same size in which exactly the tiles
  on the map that the root's catalog footprint covers are cleared and every other tile is
  as before, also when the footprint reaches past the edge of the map. A cleared tile has
  kind \<open>None\<close>, no owner and no variant, and keeps its coordinates and its height; in the
  basic program it is a fresh tile with its own coordinates, kind \<open>None\<close> and no other
  field.
\<close>

theorem demolition_clears_in_bounds:
  assumes "wf_grid (mapSize g) (grid g)" and "gameStarted g" and "viewMode g \<noteq> moon"
      and "selectedTool g = None_bt" and "inGrid (mapSize g) x y"
      and "buildingType (tileOf (grid g) x y) \<noteq> None_bt" and "50 \<le> money (stats g)"
      and "inGrid (mapSize g) (rootXOf (tileOf (grid g) x y)) (rootYOf (tileOf (grid g) x y))"
      and "wf_grid (mapSize gb) (grid gb)" and "gameStarted gb"
      and "selectedTool gb = None_bt" and "inGrid (mapSize gb) xb yb"
      and "buildingType (tileOf (grid gb) xb yb) \<noteq> None_bt" and "50 \<le> money (stats gb)"
      and "inGrid (mapSize gb) (rootXOf (tileOf (grid gb) xb yb)) (rootYOf (tileOf (grid gb) xb yb))"
  shows "clearLoop n f ps G0 = writeLoop f (filter (\<lambda>(cx, cy). cy < int n \<and> cx < int n) ps) G0
       \<and> (\<exists>G. handleTileClick B TT r now x y g
              = Returned (g\<lparr> grid := G, stats := (stats g)\<lparr> money := money (stats g) - 50 \<rparr> \<rparr>)
           \<and> dims (mapSize g) G
           \<and> (\<forall>ax ay. inGrid (mapSize g) ax ay \<longrightarrow>
                 tileOf G ax ay =
                   (let ct = tileOf (grid g) x y;
                        rootTile = tileOf (grid g) (rootXOf ct) (rootYOf ct);
                        c = B (buildingType rootTile)
                    in if covered (rootXOf ct) (rootYOf ct) (width c) (height c) ax ay
                       then (tileOf (grid g) ax ay)\<lparr> buildingType := None_bt, ownerX := None,
                              ownerY := None, variant := None \<rparr>
                       else tileOf (grid g) ax ay)))
       \<and> (\<exists>G. handleTileClick_basic B TT now xb yb gb
              = Returned (gb\<lparr> grid := G, stats := (stats gb)\<lparr> money := money (stats gb) - 50 \<rparr> \<rparr>)
           \<and> dims (mapSize gb) G
           \<and> (\<forall>ax ay. inGrid (mapSize gb) ax ay \<longrightarrow>
                 tileOf G ax ay =
                   (let ct = tileOf (grid gb) xb yb;
                        rootTile = tileOf (grid gb) (rootXOf ct) (rootYOf ct);
                        c = B (buildingType rootTile)
                    in if covered (rootXOf ct) (rootYOf ct) (width c) (height c) ax ay
                       then \<lparr> tile_x = ax, tile_y = ay, buildingType = None_bt, ownerX = None,
                              ownerY = None, variant = None, tile_height = None \<rparr>
                       else tileOf (grid gb) ax ay)))"
  using clearLoop_filter[of n f ps G0] demolish_ext[OF assms(1-8), of B TT r now]
    demolish_basic[OF assms(9-15), of B TT now]
  by blast

lemma wf_edgeGrid2: "wf_grid 2 edgeGrid2"
  by (simp add: wf_grid_def edgeGrid2_def emptyTile_def builtTile_def upt2)

lemma footprint_2x1: "footprint x y 2 (Suc 0) = [(x, y), (x + 1, y)]"
  by (simp add: footprint_def upt2)

lemma demolish_edge:
  "handleTileClick sampleCatalog sampleTechs (1 / 2) ''0'' 1 1 edgeGame
   = Returned (edgeGame\<lparr>
        grid := [[emptyTile 0 0, emptyTile 1 0],
                 [builtTile Commercial 0 1,
                  \<lparr> tile_x = 1, tile_y = 1, buildingType = None_bt, ownerX = None,
                    ownerY = None, variant = None, tile_height = Some 0 \<rparr>]],
        stats := initialStats\<lparr> money := 1950 \<rparr> \<rparr>)"
  by (simp add: handleTileClick_def edgeGame_def sampleGame_def edgeGrid2_def Let_def
        readCell_def readTile_def builtTile_def emptyTile_def cfg_def initialStats_def
        footprint_2x1 updTile_def clearedTile_def clearedTile_basic_def)

lemma demolish_edge_basic:
  "handleTileClick_basic sampleCatalog sampleTechs ''0'' 1 1 edgeGame_basic
   = Returned (edgeGame_basic\<lparr>
        grid := [[emptyTile 0 0, emptyTile 1 0],
                 [builtTile Commercial 0 1,
                  \<lparr> tile_x = 1, tile_y = 1, buildingType = None_bt, ownerX = None,
                    ownerY = None, variant = None, tile_height = None \<rparr>]],
        stats := (stats sampleGame_basic)\<lparr> money := 1950 \<rparr> \<rparr>)"
  by (simp add: handleTileClick_basic_def edgeGame_basic_def sampleGame_basic_def edgeGrid2_def
        Let_def readCell_def readTile_def builtTile_def emptyTile_def cfg_def
        footprint_2x1 updTile_def clearedTile_def clearedTile_basic_def)

theorem demolition_clears_in_bounds_witness:
  "wf_grid (mapSize edgeGame) (grid edgeGame) \<and> gameStarted edgeGame
   \<and> viewMode edgeGame \<noteq> moon \<and> selectedTool edgeGame = None_bt
   \<and> inGrid (mapSize edgeGame) 1 1
   \<and> buildingType (tileOf (grid edgeGame) 1 1) \<noteq> None_bt \<and> 50 \<le> money (stats edgeGame)
   \<and> inGrid (mapSize edgeGame) (rootXOf (tileOf (grid edgeGame) 1 1))
        (rootYOf (tileOf (grid edgeGame) 1 1))
   \<and> wf_grid (mapSize edgeGame_basic) (grid edgeGame_basic) \<and> gameStarted edgeGame_basic
   \<and> selectedTool edgeGame_basic = None_bt
   \<and> inGrid (mapSize edgeGame_basic) 1 1
   \<and> buildingType (tileOf (grid edgeGame_basic) 1 1) \<noteq> None_bt
   \<and> 50 \<le> money (stats edgeGame_basic)
   \<and> inGrid (mapSize edgeGame_basic) (rootXOf (tileOf (grid edgeGame_basic) 1 1))
        (rootYOf (tileOf (grid edgeGame_basic) 1 1))
   \<and> handleTileClick sampleCatalog sampleTechs (1 / 2) ''0'' 1 1 edgeGame
       = Returned (edgeGame\<lparr>
            grid := [[emptyTile 0 0, emptyTile 1 0],
                     [builtTile Commercial 0 1,
                  \<lparr> tile_x = 1, tile_y = 1, buildingType = None_bt, ownerX = None,
                    ownerY = None, variant = None, tile_height = Some 0 \<rparr>]],
            stats := initialStats\<lparr> money := 1950 \<rparr> \<rparr>)
   \<and> handleTileClick_basic sampleCatalog sampleTechs ''0'' 1 1 edgeGame_basic
       = Returned (edgeGame_basic\<lparr>
            grid := [[emptyTile 0 0, emptyTile 1 0],
                     [builtTile Commercial 0 1,
                  \<lparr> tile_x = 1, tile_y = 1, buildingType = None_bt, ownerX = None,
                    ownerY = None, variant = None, tile_height = None \<rparr>]],
            stats := (stats sampleGame_basic)\<lparr> money := 1950 \<rparr> \<rparr>)"
proof -
  have t: "tileOf edgeGrid2 1 1 = builtTile Residential 1 1"
    by (simp add: tileOf_def edgeGrid2_def)
  have e: "wf_grid (mapSize edgeGame) (grid edgeGame)" "gameStarted edgeGame"
    "viewMode edgeGame \<noteq> moon" "selectedTool edgeGame = None_bt"
    "inGrid (mapSize edgeGame) 1 1"
    "buildingType (tileOf (grid edgeGame) 1 1) \<noteq> None_bt" "50 \<le> money (stats edgeGame)"
    "inGrid (mapSize edgeGame) (rootXOf (tileOf (grid edgeGame) 1 1))
        (rootYOf (tileOf (grid edgeGame) 1 1))"
    by (simp_all add: edgeGame_def sampleGame_def wf_edgeGrid2 inGrid_def t builtTile_def
          emptyTile_def rootXOf_def rootYOf_def initialStats_def)
  have b: "wf_grid (mapSize edgeGame_basic) (grid edgeGame_basic)" "gameStarted edgeGame_basic"
    "selectedTool edgeGame_basic = None_bt"
    "inGrid (mapSize edgeGame_basic) 1 1"
    "buildingType (tileOf (grid edgeGame_basic) 1 1) \<noteq> None_bt"
    "50 \<le> money (stats edgeGame_basic)"
    "inGrid (mapSize edgeGame_basic) (rootXOf (tileOf (grid edgeGame_basic) 1 1))
        (rootYOf (tileOf (grid edgeGame_basic) 1 1))"
    by (simp_all add: edgeGame_basic_def sampleGame_basic_def wf_edgeGrid2 inGrid_def t
          builtTile_def emptyTile_def rootXOf_def rootYOf_def)
  from demolition_clears_in_bounds[OF e b, of 2 "\<lambda>cx cy. clearedTile" "[]" edgeGrid2
         sampleCatalog sampleTechs "1 / 2" "''0''"]
  show ?thesis
    using e b demolish_edge demolish_edge_basic by blast
qed

section \<open>Rejected build and demolish requests\<close>

lemma addNewsItem_notice: "addNewsItem (notice now txt) g = noticed now txt g"
  by (simp add: addNewsItem_def notice_def noticed_def)

lemma reject_ext:
  assumes wf: "wf_grid (mapSize g) (grid g)"
      and st: "gameStarted g" "viewMode g \<noteq> moon"
      and click: "inGrid (mapSize g) x y"
      and rej: "(selectedTool g \<noteq> None_bt
                 \<and> (selectedTool g \<notin> set (unlockedBuildings TT (unlockedTechs g))
                    \<or> x + int (width (B (selectedTool g))) > int (mapSize g)
                    \<or> y + int (height (B (selectedTool g))) > int (mapSize g)
                    \<or> (\<exists>(cx, cy) \<in> set (footprint x y (width (B (selectedTool g)))
                                             (height (B (selectedTool g)))).
                          blocked (selectedTool g) (tileOf (grid g) x y) (tileOf (grid g) cx cy))
                    \<or> money (stats g) < cost (B (selectedTool g))))
               \<or> (selectedTool g = None_bt \<and> buildingType (tileOf (grid g) x y) \<noteq> None_bt
                   \<and> money (stats g) < 50)"
  shows "\<exists>txt. handleTileClick B TT r now x y g = Returned (noticed now txt g)"
proof -
  define tool where "tool = selectedTool g"
  define c where "c = B tool"
  define n where "n = mapSize g"
  have d: "dims n (grid g)" using wf unfolding n_def by (rule wf_grid_dims)
  have cell: "readCell (grid g) x y = Inr (Some (tileOf (grid g) x y))"
    using d click by (simp add: readCell_ok n_def)
  have org: "readTile (grid g) x y = Inr (tileOf (grid g) x y)"
    using d click by (simp add: readTile_ok n_def)
  have xy: "\<not> (x < 0 \<or> int (mapSize g) \<le> x \<or> y < 0 \<or> int (mapSize g) \<le> y)"
    using click by (auto simp: inGrid_def)
  show ?thesis
  proof (cases "tool = None_bt")
    case True
    then have "buildingType (tileOf (grid g) x y) \<noteq> None_bt" "money (stats g) < 50"
      using rej by (auto simp: tool_def)
    then have "handleTileClick B TT r now x y g
               = Returned (noticed now ''Insufficient credits for demolition crews.'' g)"
      unfolding handleTileClick_def
      using st xy cell True[unfolded tool_def]
      by (simp add: Let_def addNewsItem_notice)
    then show ?thesis by blast
  next
    case build: False
    show ?thesis
    proof (cases "tool \<notin> set (unlockedBuildings TT (unlockedTechs g))")
      case True
      then have "handleTileClick B TT r now x y g
               = Returned (noticed now ''Technology not yet researched.'' g)"
        unfolding handleTileClick_def
        using st xy cell build unfolding tool_def
        by (simp add: Let_def addNewsItem_notice)
      then show ?thesis by blast
    next
      case unl: False
      show ?thesis
      proof (cases "x + int (width c) > int n \<or> y + int (height c) > int n")
        case True
        then have "handleTileClick B TT r now x y g
               = Returned (noticed now ''Cannot place here: Outside colony bounds.'' g)"
          unfolding handleTileClick_def
          using st xy cell build unl unfolding tool_def c_def n_def
          by (auto simp: Let_def addNewsItem_notice)
        then show ?thesis by blast
      next
        case inb: False
        have fin: "\<forall>(cx, cy) \<in> set (footprint x y (width c) (height c)). inGrid n cx cy"
          using inb click by (auto simp: footprint_mem inGrid_def n_def)
        have occ: "occupiedLoop (blocked tool (tileOf (grid g) x y)) (grid g)
                      (footprint x y (width c) (height c)) False
                   = Inr (\<exists>(cx, cy) \<in> set (footprint x y (width c) (height c)).
                            blocked tool (tileOf (grid g) x y) (tileOf (grid g) cx cy))"
          using occupiedLoop_ok[OF d fin, of "blocked tool (tileOf (grid g) x y)" False] by simp
        have bl: "blocked tool (tileOf (grid g) x y)
                  = (\<lambda>t. (\<not> (tool = GreenRoad \<and> buildingType t = Road) \<and> buildingType t \<noteq> None_bt)
                          \<or> tile_height t \<noteq> tile_height (tileOf (grid g) x y))"
          by (rule ext) (simp add: blocked_def)
        show ?thesis
        proof (cases "\<exists>(cx, cy) \<in> set (footprint x y (width c) (height c)).
                            blocked tool (tileOf (grid g) x y) (tileOf (grid g) cx cy)")
          case True
          then have "handleTileClick B TT r now x y g
               = Returned (noticed now ''Sector occupied or uneven terrain.'' g)"
            unfolding handleTileClick_def
            using st xy cell build unl inb org occ[unfolded bl] True[unfolded bl]
            unfolding tool_def c_def n_def
            by (simp add: Let_def addNewsItem_notice)
          then show ?thesis by blast
        next
          case free: False
          then have poor: "money (stats g) < cost c"
            using rej build unl inb unfolding tool_def c_def n_def by auto
          have "handleTileClick B TT r now x y g
               = Returned (noticed now (''Insufficient credits for '' @ name c @ ''.'') g)"
            unfolding handleTileClick_def
            using st xy cell build unl inb org occ[unfolded bl] free[unfolded bl] poor
            unfolding tool_def c_def n_def
            by (simp add: Let_def addNewsItem_notice)
          then show ?thesis by blast
        qed
      qed
    qed
  qed
qed

lemma reject_basic:
  assumes wf: "wf_grid (mapSize g) (grid g)"
      and st: "gameStarted g"
      and click: "inGrid (mapSize g) x y"
      and rej: "(selectedTool g \<noteq> None_bt
                 \<and> (selectedTool g \<notin> set (unlockedBuildings TT (unlockedTechs g))
                    \<or> x + int (width (B (selectedTool g))) > int (mapSize g)
                    \<or> y + int (height (B (selectedTool g))) > int (mapSize g)
                    \<or> (\<exists>(cx, cy) \<in> set (footprint x y (width (B (selectedTool g)))
                                             (height (B (selectedTool g)))).
                          buildingType (tileOf (grid g) cx cy) \<noteq> None_bt)
                    \<or> money (stats g) < cost (B (selectedTool g))))
               \<or> (selectedTool g = None_bt \<and> buildingType (tileOf (grid g) x y) \<noteq> None_bt
                   \<and> money (stats g) < 50)"
  shows "\<exists>txt. handleTileClick_basic B TT now x y g = Returned (noticed now txt g)"
proof -
  define tool where "tool = selectedTool g"
  define c where "c = B tool"
  define n where "n = mapSize g"
  have d: "dims n (grid g)" using wf unfolding n_def by (rule wf_grid_dims)
  have cell: "readCell (grid g) x y = Inr (Some (tileOf (grid g) x y))"
    using d click by (simp add: readCell_ok n_def)
  have xy: "\<not> (x < 0 \<or> int (mapSize g) \<le> x \<or> y < 0 \<or> int (mapSize g) \<le> y)"
    using click by (auto simp: inGrid_def)
  show ?thesis
  proof (cases "tool = None_bt")
    case True
    then have "buildingType (tileOf (grid g) x y) \<noteq> None_bt" "money (stats g) < 50"
      using rej by (auto simp: tool_def)
    then have "handleTileClick_basic B TT now x y g
               = Returned (noticed now ''Insufficient credits for demolition crews.'' g)"
      unfolding handleTileClick_basic_def
      using st xy cell True[unfolded tool_def]
      by (simp add: Let_def addNewsItem_notice)
    then show ?thesis by blast
  next
    case build: False
    show ?thesis
    proof (cases "tool \<notin> set (unlockedBuildings TT (unlockedTechs g))")
      case True
      then have "handleTileClick_basic B TT now x y g
               = Returned (noticed now ''Technology not yet researched.'' g)"
        unfolding handleTileClick_basic_def
        using st xy cell build unfolding tool_def
        by (simp add: Let_def addNewsItem_notice)
      then show ?thesis by blast
    next
      case unl: False
      show ?thesis
      proof (cases "x + int (width c) > int n \<or> y + int (height c) > int n")
        case True
        then have "handleTileClick_basic B TT now x y g
               = Returned (noticed now ''Cannot place here: Outside colony bounds.'' g)"
          unfolding handleTileClick_basic_def
          using st xy cell build unl unfolding tool_def c_def n_def
          by (auto simp: Let_def addNewsItem_notice)
        then show ?thesis by blast
      next
        case inb: False
        have fin: "\<forall>(cx, cy) \<in> set (footprint x y (width c) (height c)). inGrid n cx cy"
          using inb click by (auto simp: footprint_mem inGrid_def n_def)
        have occ: "occupiedOuter_basic (grid g) x y (height c) [0..<width c] False
                   = Inr (\<exists>(cx, cy) \<in> set (footprint x y (width c) (height c)).
                            buildingType (tileOf (grid g) cx cy) \<noteq> None_bt)"
          using occupied_basic_footprint[OF d fin] .
        show ?thesis
        proof (cases "\<exists>(cx, cy) \<in> set (footprint x y (width c) (height c)).
                            buildingType (tileOf (grid g) cx cy) \<noteq> None_bt")
          case True
          then have "handleTileClick_basic B TT now x y g
               = Returned (noticed now ''Sector occupied. Demolish existing structures first.'' g)"
            unfolding handleTileClick_basic_def
            using st xy cell build unl inb occ
            unfolding tool_def c_def n_def
            by (simp add: Let_def addNewsItem_notice)
          then show ?thesis by blast
        next
          case free: False
          then have poor: "money (stats g) < cost c"
            using rej build unl inb unfolding tool_def c_def n_def by auto
          have "handleTileClick_basic B TT now x y g
               = Returned (noticed now (''Insufficient credits for '' @ name c @ ''.'') g)"
            unfolding handleTileClick_basic_def
            using st xy cell build unl inb occ free poor
            unfolding tool_def c_def n_def
            by (simp add: Let_def addNewsItem_notice)
          then show ?thesis by blast
        qed
      qed
    qed
  qed
qed

lemma noticed_frame:
  "grid (noticed now txt g) = grid g" "stats (noticed now txt g) = stats g"
  "last (newsFeed (noticed now txt g)) = \<lparr> news_id = now, news_text = txt, news_type = negative \<rparr>"
  by (simp_all add: noticed_def)

text \<open>
  C8. On a well-formed map, in a started game (extended program: not in the moon view), a
  click on a tile of the map that is a build request for a kind not unlocked, or with a
  footprint reaching past the map, or over a tile that is occupied or (extended program)
  uneven, or for which the money is less than the cost, or that is a demolition of an
  occupied tile with less than 50 credits, returns without throwing; the game after it is
  the game before with one negative notice appended to the news feed (of which the last 12
  items are kept), so the grid and the stats are unchanged.
\<close>

theorem rejected_requests:
  assumes "wf_grid (mapSize g) (grid g)" and "gameStarted g" and "viewMode g \<noteq> moon"
      and "inGrid (mapSize g) x y"
      and "(selectedTool g \<noteq> None_bt
                 \<and> (selectedTool g \<notin> set (unlockedBuildings TT (unlockedTechs g))
                    \<or> x + int (width (B (selectedTool g))) > int (mapSize g)
                    \<or> y + int (height (B (selectedTool g))) > int (mapSize g)
                    \<or> (\<exists>(cx, cy) \<in> set (footprint x y (width (B (selectedTool g)))
                                             (height (B (selectedTool g)))).
                          blocked (selectedTool g) (tileOf (grid g) x y) (tileOf (grid g) cx cy))
                    \<or> money (stats g) < cost (B (selectedTool g))))
               \<or> (selectedTool g = None_bt \<and> buildingType (tileOf (grid g) x y) \<noteq> None_bt
                   \<and> money (stats g) < 50)"
      and "wf_grid (mapSize gb) (grid gb)" and "gameStarted gb"
      and "inGrid (mapSize gb) xb yb"
      and "(selectedTool gb \<noteq> None_bt
                 \<and> (selectedTool gb \<notin> set (unlockedBuildings TT (unlockedTechs gb))
                    \<or> xb + int (width (B (selectedTool gb))) > int (mapSize gb)
                    \<or> yb + int (height (B (selectedTool gb))) > int (mapSize gb)
                    \<or> (\<exists>(cx, cy) \<in> set (footprint xb yb (width (B (selectedTool gb)))
                                             (height (B (selectedTool gb)))).
                          buildingType (tileOf (grid gb) cx cy) \<noteq> None_bt)
                    \<or> money (stats gb) < cost (B (selectedTool gb))))
               \<or> (selectedTool gb = None_bt \<and> buildingType (tileOf (grid gb) xb yb) \<noteq> None_bt
                   \<and> money (stats gb) < 50)"
  shows "(\<exists>txt g'. handleTileClick B TT r now x y g = Returned g'
            \<and> g' = noticed now txt g \<and> grid g' = grid g \<and> stats g' = stats g
            \<and> last (newsFeed g') = \<lparr> news_id = now, news_text = txt, news_type = negative \<rparr>)
       \<and> (\<exists>txt g'. handleTileClick_basic B TT now xb yb gb = Returned g'
            \<and> g' = noticed now txt gb \<and> grid g' = grid gb \<and> stats g' = stats gb
            \<and> last (newsFeed g') = \<lparr> news_id = now, news_text = txt, news_type = negative \<rparr>)"
proof
  obtain msg where "handleTileClick B TT r now x y g = Returned (noticed now msg g)"
    using reject_ext[where g = g and x = x and y = y and TT = TT and B = B and r = r
            and now = now] assms(1-5) by blast
  then show "\<exists>txt g'. handleTileClick B TT r now x y g = Returned g'
            \<and> g' = noticed now txt g \<and> grid g' = grid g \<and> stats g' = stats g
            \<and> last (newsFeed g') = \<lparr> news_id = now, news_text = txt, news_type = negative \<rparr>"
    using noticed_frame[of now msg g] by blast
next
  obtain msg where "handleTileClick_basic B TT now xb yb gb = Returned (noticed now msg gb)"
    using reject_basic[where g = gb and x = xb and y = yb and TT = TT and B = B
            and now = now] assms(6-9) by blast
  then show "\<exists>txt g'. handleTileClick_basic B TT now xb yb gb = Returned g'
            \<and> g' = noticed now txt gb \<and> grid g' = grid gb \<and> stats g' = stats gb
            \<and> last (newsFeed g') = \<lparr> news_id = now, news_text = txt, news_type = negative \<rparr>"
    using noticed_frame[of now msg gb] by blast
qed

lemma wf_townGrid2: "wf_grid 2 townGrid2"
  by (simp add: wf_grid_def townGrid2_def emptyTile_def builtTile_def upt2)

lemma reject_road:
  "handleTileClick sampleCatalog sampleTechs (1 / 2) ''0'' 0 0 roadGame
   = Returned (noticed ''0'' ''Sector occupied or uneven terrain.'' roadGame)"
  by (simp add: handleTileClick_def roadGame_def sampleGame_def townGrid2_def Let_def
        readCell_def readTile_def builtTile_def emptyTile_def cfg_def initialStats_def
        footprint_1x1 unlocked_sample addNewsItem_notice)

lemma reject_locked:
  "handleTileClick_basic sampleCatalog sampleTechs ''0'' 0 0 lockedGame_basic
   = Returned (noticed ''0'' ''Technology not yet researched.'' lockedGame_basic)"
  by (simp add: handleTileClick_basic_def lockedGame_basic_def sampleGame_basic_def flatGrid2_def
        Let_def readCell_def emptyTile_def unlocked_sample addNewsItem_notice)

theorem rejected_requests_witness:
  "wf_grid (mapSize roadGame) (grid roadGame) \<and> gameStarted roadGame
   \<and> viewMode roadGame \<noteq> moon \<and> inGrid (mapSize roadGame) 0 0
   \<and> selectedTool roadGame \<noteq> None_bt
   \<and> (0, 0) \<in> set (footprint 0 0 (width (sampleCatalog (selectedTool roadGame)))
                       (height (sampleCatalog (selectedTool roadGame))))
   \<and> blocked (selectedTool roadGame) (tileOf (grid roadGame) 0 0) (tileOf (grid roadGame) 0 0)
   \<and> wf_grid (mapSize lockedGame_basic) (grid lockedGame_basic) \<and> gameStarted lockedGame_basic
   \<and> inGrid (mapSize lockedGame_basic) 0 0
   \<and> selectedTool lockedGame_basic \<noteq> None_bt
   \<and> selectedTool lockedGame_basic
        \<notin> set (unlockedBuildings sampleTechs (unlockedTechs lockedGame_basic))
   \<and> handleTileClick sampleCatalog sampleTechs (1 / 2) ''0'' 0 0 roadGame
       = Returned (noticed ''0'' ''Sector occupied or uneven terrain.'' roadGame)
   \<and> handleTileClick_basic sampleCatalog sampleTechs ''0'' 0 0 lockedGame_basic
       = Returned (noticed ''0'' ''Technology not yet researched.'' lockedGame_basic)"
proof -
  have t: "tileOf townGrid2 0 0 = builtTile Commercial 0 0"
    by (simp add: tileOf_def townGrid2_def)
  have e: "wf_grid (mapSize roadGame) (grid roadGame)" "gameStarted roadGame"
    "viewMode roadGame \<noteq> moon" "inGrid (mapSize roadGame) 0 0"
    by (simp_all add: roadGame_def sampleGame_def wf_townGrid2 inGrid_def)
  have e5: "selectedTool roadGame \<noteq> None_bt"
    "(0, 0) \<in> set (footprint 0 0 (width (sampleCatalog (selectedTool roadGame)))
                       (height (sampleCatalog (selectedTool roadGame))))"
    "blocked (selectedTool roadGame) (tileOf (grid roadGame) 0 0) (tileOf (grid roadGame) 0 0)"
    by (simp_all add: roadGame_def sampleGame_def t blocked_def builtTile_def emptyTile_def
          cfg_def footprint_1x1)
  have b: "wf_grid (mapSize lockedGame_basic) (grid lockedGame_basic)"
    "gameStarted lockedGame_basic" "inGrid (mapSize lockedGame_basic) 0 0"
    by (simp_all add: lockedGame_basic_def sampleGame_basic_def wf_flatGrid2 inGrid_def)
  have b4: "selectedTool lockedGame_basic \<noteq> None_bt"
    "selectedTool lockedGame_basic
        \<notin> set (unlockedBuildings sampleTechs (unlockedTechs lockedGame_basic))"
    by (simp_all add: lockedGame_basic_def sampleGame_basic_def unlocked_sample)
  have re: "(selectedTool roadGame \<noteq> None_bt
                 \<and> (selectedTool roadGame \<notin> set (unlockedBuildings sampleTechs (unlockedTechs roadGame))
                    \<or> 0 + int (width (sampleCatalog (selectedTool roadGame))) > int (mapSize roadGame)
                    \<or> 0 + int (height (sampleCatalog (selectedTool roadGame))) > int (mapSize roadGame)
                    \<or> (\<exists>(cx, cy) \<in> set (footprint 0 0 (width (sampleCatalog (selectedTool roadGame)))
                                             (height (sampleCatalog (selectedTool roadGame)))).
                          blocked (selectedTool roadGame) (tileOf (grid roadGame) 0 0)
                            (tileOf (grid roadGame) cx cy))
                    \<or> money (stats roadGame) < cost (sampleCatalog (selectedTool roadGame))))
               \<or> (selectedTool roadGame = None_bt
                   \<and> buildingType (tileOf (grid roadGame) 0 0) \<noteq> None_bt
                   \<and> money (stats roadGame) < 50)"
    using e5 by blast
  have rb: "(selectedTool lockedGame_basic \<noteq> None_bt
                 \<and> (selectedTool lockedGame_basic
                       \<notin> set (unlockedBuildings sampleTechs (unlockedTechs lockedGame_basic))
                    \<or> 0 + int (width (sampleCatalog (selectedTool lockedGame_basic)))
                        > int (mapSize lockedGame_basic)
                    \<or> 0 + int (height (sampleCatalog (selectedTool lockedGame_basic)))
                        > int (mapSize lockedGame_basic)
                    \<or> (\<exists>(cx, cy) \<in> set (footprint 0 0
                                             (width (sampleCatalog (selectedTool lockedGame_basic)))
                                             (height (sampleCatalog (selectedTool lockedGame_basic)))).
                          buildingType (tileOf (grid lockedGame_basic) cx cy) \<noteq> None_bt)
                    \<or> money (stats lockedGame_basic)
                        < cost (sampleCatalog (selectedTool lockedGame_basic))))
               \<or> (selectedTool lockedGame_basic = None_bt
                   \<and> buildingType (tileOf (grid lockedGame_basic) 0 0) \<noteq> None_bt
                   \<and> money (stats lockedGame_basic) < 50)"
    using b4 by blast
  have "(\<exists>txt g'. handleTileClick sampleCatalog sampleTechs (1 / 2) ''0'' 0 0 roadGame = Returned g'
            \<and> g' = noticed ''0'' txt roadGame \<and> grid g' = grid roadGame
            \<and> stats g' = stats roadGame
            \<and> last (newsFeed g')
                = \<lparr> news_id = ''0'', news_text = txt, news_type = negative \<rparr>)
       \<and> (\<exists>txt g'. handleTileClick_basic sampleCatalog sampleTechs ''0'' 0 0 lockedGame_basic
                    = Returned g'
            \<and> g' = noticed ''0'' txt lockedGame_basic \<and> grid g' = grid lockedGame_basic
            \<and> stats g' = stats lockedGame_basic
            \<and> last (newsFeed g')
                = \<lparr> news_id = ''0'', news_text = txt, news_type = negative \<rparr>)"
    using rejected_requests[where g = roadGame and x = 0 and y = 0 and TT = sampleTechs
            and B = sampleCatalog and gb = lockedGame_basic and xb = 0 and yb = 0
            and r = "1 / 2" and now = "''0''"] e re b rb
    by blast
  then show ?thesis
    using e e5 b b4 reject_road reject_locked by blast
qed

end
